theory Spec2Isabelle
  imports Complex_Main "HOL-Library.Monad_Syntax"
begin

section \<open>The LibreLink client: base URL\<close>

text \<open>
  \<^verbatim>\<open>getUrl\<close> of \<^verbatim>\<open>api/librelink/client.go\<close>. Go strings are byte sequences and
  \<^verbatim>\<open>fmt.Sprintf\<close> with the verb \<^verbatim>\<open>%s\<close> copies the bytes of its argument, so the
  formatted text is a concatenation.
\<close>

definition getUrl :: "string \<Rightarrow> string" where
  "getUrl region =
     (if region = '''' then ''https://api.libreview.io''
      else ''https://api-'' @ region @ ''.libreview.io'')"

text \<open>
  The host pattern in the words of the specification:
  \<^verbatim>\<open>https://api.<region>.<service-domain>\<close>, and the bare
  \<^verbatim>\<open>https://api.<service-domain>\<close> when no region is known.
\<close>

definition spec_base_host :: "string \<Rightarrow> string" where
  "spec_base_host region =
     (if region = '''' then ''https://api.libreview.io''
      else ''https://api.'' @ region @ ''.libreview.io'')"

section \<open>Values of the Go run time\<close>

text \<open>
  A Go function returning \<^verbatim>\<open>(T, error)\<close> either returns a value, returns an error, or
  panics (a nil pointer dereference); the three outcomes are kept apart. The errors of the
  standard library are opaque; an error built by \<^verbatim>\<open>fmt.Errorf\<close> keeps its text and, for
  the verb \<^verbatim>\<open>%w\<close>, the error it wraps.
\<close>

datatype error =
    TransportError
  | UrlError
  | JsonError
  | TimeParseError
  | UnexpectedStatusCode int
  | ApiError int string
  | Errorf string
  | Wrap string error

datatype 'a result = Ok 'a | Err error | Panic

text \<open>
  A \<^verbatim>\<open>time.Time\<close> is kept as the call that built it: the zero value, \<^verbatim>\<open>time.Unix(sec, 0)\<close>,
  or \<^verbatim>\<open>time.Date(year, month, day, hour, min, sec, nsec, time.UTC)\<close>. A \<^verbatim>\<open>float64\<close> is
  kept as the rational it was read from; rounding to the nearest double is not modelled.
  Go's \<^verbatim>\<open>int\<close> is taken to be 64 bits wide.
\<close>

datatype Time = ZeroTime | Unix int | Date nat nat nat nat nat nat nat

datatype float64 = Float64 rat

definition wrap64 :: "int \<Rightarrow> int" where
  "wrap64 x = (x + 2 ^ 63) mod 2 ^ 64 - 2 ^ 63"

definition in_int64 :: "int \<Rightarrow> bool" where
  "in_int64 x \<longleftrightarrow> - (2 ^ 63) \<le> x \<and> x < 2 ^ 63"

definition in_float64 :: "rat \<Rightarrow> bool" where
  "in_float64 q \<longleftrightarrow> \<bar>q\<bar> < 2 ^ 1024 - 2 ^ 970"

section \<open>Parsing dates\<close>

text \<open>
  \<^verbatim>\<open>parseDate\<close> is \<^verbatim>\<open>time.Parse(DateFormat, s)\<close> with the layout
  \<^verbatim>\<open>"1/2/2006 3:04:05 PM"\<close>. The standard library's parser is followed for this layout,
  whose elements are: month (one or two digits), \<^verbatim>\<open>/\<close>, day (one or two digits), \<^verbatim>\<open>/\<close>,
  year (four digits), a space, hour on the 12-hour clock (one or two digits), \<^verbatim>\<open>:\<close>,
  minute (two digits), \<^verbatim>\<open>:\<close>, second (two digits), a space, and \<^verbatim>\<open>AM\<close> or \<^verbatim>\<open>PM\<close>.
  As in the library, a run of spaces stands for the space of the layout, and a fraction
  of a second (a comma or a period and digits) may follow the seconds although the
  layout has none. The result is in UTC.
\<close>

definition DateFormat :: string where
  "DateFormat = ''1/2/2006 3:04:05 PM''"

definition isDigit :: "char \<Rightarrow> bool" where
  "isDigit c \<longleftrightarrow> 48 \<le> (of_char c :: nat) \<and> (of_char c :: nat) \<le> 57"

definition digit :: "char \<Rightarrow> nat" where
  "digit c = of_char c - 48"

definition getnum :: "string \<Rightarrow> bool \<Rightarrow> (nat \<times> string) option" where
  "getnum s fixed =
     (case s of
        [] \<Rightarrow> None
      | c # r \<Rightarrow>
          if \<not> isDigit c then None
          else (case r of
                  [] \<Rightarrow> if fixed then None else Some (digit c, r)
                | d # r' \<Rightarrow>
                    if \<not> isDigit d then (if fixed then None else Some (digit c, r))
                    else Some (digit c * 10 + digit d, r')))"

definition cutspace :: "string \<Rightarrow> string" where
  "cutspace s = dropWhile (\<lambda>c. c = CHR '' '') s"

function skip :: "string \<Rightarrow> string \<Rightarrow> string option" where
  "skip v [] = Some v"
| "skip v (p # pre) =
     (if p = CHR '' '' then
        (if v \<noteq> [] \<and> hd v \<noteq> CHR '' '' then None
         else skip (cutspace v) (cutspace (p # pre)))
      else (case v of
              [] \<Rightarrow> None
            | c # v' \<Rightarrow> if c \<noteq> p then None else skip v' pre))"
  by pat_completeness auto
termination
  by (relation "measure (\<lambda>(v, p). length p)")
     (auto simp: cutspace_def le_imp_less_Suc length_dropWhile_le)

text \<open>
  \<^verbatim>\<open>atoi\<close> on a text that does not start with a sign: the value of the digits, an error
  when another byte occurs.
\<close>

definition digits :: "string \<Rightarrow> nat" where
  "digits s = foldl (\<lambda>a c. a * 10 + digit c) 0 s"

definition atoi :: "string \<Rightarrow> nat option" where
  "atoi s = (if list_all isDigit s then Some (digits s) else None)"

definition commaOrPeriod :: "char \<Rightarrow> bool" where
  "commaOrPeriod c \<longleftrightarrow> c = CHR ''.'' \<or> c = CHR '',''"

text \<open>
  \<^verbatim>\<open>parseNanoseconds(value, nbytes)\<close>: the first byte is the separator, at most nine
  digits count, scaled to nanoseconds.
\<close>

definition parseNanoseconds :: "string \<Rightarrow> nat \<Rightarrow> nat option" where
  "parseNanoseconds v nbytes =
     (if v = [] \<or> \<not> commaOrPeriod (hd v) then None
      else let n = min nbytes 10 in
        map_option (\<lambda>ns. ns * 10 ^ (10 - n)) (atoi (take (n - 1) (tl v))))"

definition isLeap :: "nat \<Rightarrow> bool" where
  "isLeap year \<longleftrightarrow> year mod 4 = 0 \<and> (year mod 100 \<noteq> 0 \<or> year mod 400 = 0)"

definition daysIn :: "nat \<Rightarrow> nat \<Rightarrow> nat" where
  "daysIn m year =
     (if m = 2 then (if isLeap year then 29 else 28)
      else if m = 4 \<or> m = 6 \<or> m = 9 \<or> m = 11 then 30 else 31)"

definition check :: "bool \<Rightarrow> unit option" where
  "check b = (if b then Some () else None)"

text \<open>The fraction of a second that may follow the seconds.\<close>

definition parse_fraction :: "string \<Rightarrow> (nat \<times> string) option" where
  "parse_fraction v =
     (if 2 \<le> length v \<and> commaOrPeriod (hd v) \<and> isDigit (v ! 1) then
        (let n = 2 + length (takeWhile isDigit (drop 2 v)) in
         map_option (\<lambda>nsec. (nsec, drop n v)) (parseNanoseconds v n))
      else Some (0, v))"

definition time_Parse_DateFormat :: "string \<Rightarrow> Time option" where
  "time_Parse_DateFormat v0 = do {
     (month, v1) \<leftarrow> getnum v0 False;
     _ \<leftarrow> check (0 < month \<and> month \<le> 12);
     v2 \<leftarrow> skip v1 ''/'';
     (day, v3) \<leftarrow> getnum v2 False;
     v4 \<leftarrow> skip v3 ''/'';
     _ \<leftarrow> check (4 \<le> length v4 \<and> isDigit (hd v4));
     year \<leftarrow> atoi (take 4 v4);
     v5 \<leftarrow> skip (drop 4 v4) '' '';
     (hour, v6) \<leftarrow> getnum v5 False;
     _ \<leftarrow> check (hour \<le> 12);
     v7 \<leftarrow> skip v6 '':'';
     (minute, v8) \<leftarrow> getnum v7 True;
     _ \<leftarrow> check (minute < 60);
     v9 \<leftarrow> skip v8 '':'';
     (sec, v10) \<leftarrow> getnum v9 True;
     _ \<leftarrow> check (sec < 60);
     (nsec, v11) \<leftarrow> parse_fraction v10;
     v12 \<leftarrow> skip v11 '' '';
     _ \<leftarrow> check (2 \<le> length v12);
     _ \<leftarrow> check (take 2 v12 = ''PM'' \<or> take 2 v12 = ''AM'');
     _ \<leftarrow> check (drop 2 v12 = []);
     _ \<leftarrow> check (1 \<le> day \<and> day \<le> daysIn month year);
     Some (Date year month day
             (if take 2 v12 = ''PM'' \<and> hour < 12 then hour + 12
              else if take 2 v12 = ''AM'' \<and> hour = 12 then 0 else hour)
             minute sec nsec)
   }"

definition parseDate :: "string \<Rightarrow> Time result" where
  "parseDate s =
     (case time_Parse_DateFormat s of None \<Rightarrow> Err TimeParseError | Some t \<Rightarrow> Ok t)"

section \<open>JSON documents and their decoding\<close>

text \<open>
  A document is taken after \<^verbatim>\<open>encoding/json\<close> has scanned it: a number is an integer
  literal or a literal with a fraction or an exponent, an object is the list of its
  members in the order of the text. A member name stands for the field tag it is
  resolved to (the decoder compares names ignoring case), and a name occurs once in an
  object.
\<close>

datatype number = IntLit int | RealLit rat

datatype json =
    JNull
  | JBool bool
  | JNum number
  | JStr string
  | JArr "json list"
  | JObj "(string \<times> json) list"

text \<open>
  The state of the decoder after it stored a value: \<open>Done v e\<close> when it went through,
  with \<open>e\<close> set when a type mismatch was recorded on the way (the decoder goes on and
  reports the first such error at the end); \<open>Abort\<close> when an \<^verbatim>\<open>UnmarshalJSON\<close> method
  returned an error, which stops the decoding; \<open>Crash\<close> when such a method panicked.
\<close>

datatype 'a dec = Done 'a bool | Abort error | Crash

definition unmarshal :: "'a dec \<Rightarrow> 'a result" where
  "unmarshal d =
     (case d of
        Done v e \<Rightarrow> if e then Err JsonError else Ok v
      | Abort x \<Rightarrow> Err x
      | Crash \<Rightarrow> Panic)"

text \<open>
  \<^verbatim>\<open>json.Unmarshal(raw, &v)\<close>: \<open>None\<close> stands for bytes that are not one JSON value
  (among them the empty \<^verbatim>\<open>json.RawMessage\<close> of a missing member).
\<close>

definition json_Unmarshal :: "json option \<Rightarrow> (json \<Rightarrow> 'a dec) \<Rightarrow> 'a result" where
  "json_Unmarshal raw f =
     (case raw of None \<Rightarrow> Err JsonError | Some j \<Rightarrow> unmarshal (f j))"

definition dec_set :: "'a dec \<Rightarrow> ('a \<Rightarrow> 'b) \<Rightarrow> 'b dec" where
  "dec_set d f =
     (case d of Done v e \<Rightarrow> Done (f v) e | Abort x \<Rightarrow> Abort x | Crash \<Rightarrow> Crash)"

text \<open>Scalars: \<^verbatim>\<open>null\<close> leaves the field as it is, a value of another kind is a mismatch.\<close>

definition dec_string :: "json \<Rightarrow> string \<Rightarrow> string dec" where
  "dec_string j cur =
     (case j of JStr s \<Rightarrow> Done s False | JNull \<Rightarrow> Done cur False | _ \<Rightarrow> Done cur True)"

definition dec_bool :: "json \<Rightarrow> bool \<Rightarrow> bool dec" where
  "dec_bool j cur =
     (case j of JBool b \<Rightarrow> Done b False | JNull \<Rightarrow> Done cur False | _ \<Rightarrow> Done cur True)"

definition dec_int :: "json \<Rightarrow> int \<Rightarrow> int dec" where
  "dec_int j cur =
     (case j of
        JNum (IntLit i) \<Rightarrow> if in_int64 i then Done i False else Done cur True
      | JNull \<Rightarrow> Done cur False
      | _ \<Rightarrow> Done cur True)"

definition dec_float64 :: "json \<Rightarrow> float64 \<Rightarrow> float64 dec" where
  "dec_float64 j cur =
     (case j of
        JNum (IntLit i) \<Rightarrow>
          if in_float64 (of_int i) then Done (Float64 (of_int i)) False else Done cur True
      | JNum (RealLit q) \<Rightarrow> if in_float64 q then Done (Float64 q) False else Done cur True
      | JNull \<Rightarrow> Done cur False
      | _ \<Rightarrow> Done cur True)"

text \<open>A \<^verbatim>\<open>*string\<close> field: \<^verbatim>\<open>null\<close> makes it nil.\<close>

definition dec_string_ptr :: "json \<Rightarrow> string option \<Rightarrow> string option dec" where
  "dec_string_ptr j cur =
     (case j of
        JNull \<Rightarrow> Done None False
      | _ \<Rightarrow> dec_set (dec_string j (case cur of None \<Rightarrow> [] | Some s \<Rightarrow> s)) Some)"

text \<open>
  A struct: each member of the object is stored in turn by the function of the struct's
  fields; \<^verbatim>\<open>null\<close> leaves the struct as it is.
\<close>

fun dec_members :: "(string \<Rightarrow> json \<Rightarrow> 'a \<Rightarrow> 'a dec) \<Rightarrow> (string \<times> json) list \<Rightarrow> 'a \<Rightarrow> 'a dec" where
  "dec_members f [] a = Done a False"
| "dec_members f (m # ms) a =
     (case f (fst m) (snd m) a of
        Done a' e \<Rightarrow>
          (case dec_members f ms a' of
             Done a'' e' \<Rightarrow> Done a'' (e \<or> e')
           | Abort x \<Rightarrow> Abort x
           | Crash \<Rightarrow> Crash)
      | Abort x \<Rightarrow> Abort x
      | Crash \<Rightarrow> Crash)"

definition dec_struct :: "(string \<Rightarrow> json \<Rightarrow> 'a \<Rightarrow> 'a dec) \<Rightarrow> json \<Rightarrow> 'a \<Rightarrow> 'a dec" where
  "dec_struct f j cur =
     (case j of
        JObj ms \<Rightarrow> dec_members f ms cur
      | JNull \<Rightarrow> Done cur False
      | _ \<Rightarrow> Done cur True)"

text \<open>A slice: each element of the array is decoded into a fresh element.\<close>

fun dec_elems :: "(json \<Rightarrow> 'a dec) \<Rightarrow> json list \<Rightarrow> 'a list dec" where
  "dec_elems f [] = Done [] False"
| "dec_elems f (j # js) =
     (case f j of
        Done v e \<Rightarrow>
          (case dec_elems f js of
             Done vs e' \<Rightarrow> Done (v # vs) (e \<or> e')
           | Abort x \<Rightarrow> Abort x
           | Crash \<Rightarrow> Crash)
      | Abort x \<Rightarrow> Abort x
      | Crash \<Rightarrow> Crash)"

definition dec_slice :: "(json \<Rightarrow> 'a dec) \<Rightarrow> json \<Rightarrow> 'a list \<Rightarrow> 'a list dec" where
  "dec_slice f j cur =
     (case j of
        JArr js \<Rightarrow> dec_elems f js
      | JNull \<Rightarrow> Done [] False
      | _ \<Rightarrow> Done cur True)"

section \<open>The types of the remote interface\<close>

record LibreLinkError =
  Message :: string

record User =
  ID :: string
  FirstName :: string
  LastName :: string
  Email :: string
  Country :: string

record AuthTicket =
  Token :: string
  Expires :: Time
  Duration :: int

record LibreLinkResp =
  Status :: int
  Data :: "json option"
  Ticket :: AuthTicket
  Error :: "LibreLinkError option"

record AuthResponse =
  User :: User
  AuthTicket :: AuthTicket

record RedirecResponse =
  Redirect :: bool
  Region :: string

record GlucoseMeasurement =
  Timestamp :: Time
  Type :: int
  ValueInMgPerDl :: int
  MeasurementColor :: int
  GlucoseUnits :: int
  Value :: float64
  IsHigh :: bool
  IsLow :: bool
  TrendArrow :: int
  TrendMessage :: "string option"

record Connection =
  Id' :: string
  PatientId :: string
  FirstName :: string
  LastName :: string
  Email :: string
  DateOfBirth :: string
  EmailVerified :: bool
  SignUpDate :: string
  GlucoseMeasurement :: "GlucoseMeasurement option"
  GlucoseItem :: "GlucoseMeasurement option"

record GraphData =
  Connection :: Connection
  GraphData :: "GlucoseMeasurement list"

text \<open>The zero values of the structs.\<close>

definition zero_User :: User where
  "zero_User = \<lparr>ID = [], User.FirstName = [], User.LastName = [], User.Email = [],
     Country = []\<rparr>"

definition zero_AuthTicket :: AuthTicket where
  "zero_AuthTicket = \<lparr>Token = [], Expires = ZeroTime, Duration = 0\<rparr>"

definition zero_LibreLinkResp :: LibreLinkResp where
  "zero_LibreLinkResp = \<lparr>Status = 0, Data = None, Ticket = zero_AuthTicket, Error = None\<rparr>"

definition zero_AuthResponse :: AuthResponse where
  "zero_AuthResponse = \<lparr>User = zero_User, AuthTicket = zero_AuthTicket\<rparr>"

definition zero_RedirecResponse :: RedirecResponse where
  "zero_RedirecResponse = \<lparr>Redirect = False, Region = []\<rparr>"

definition zero_GlucoseMeasurement :: GlucoseMeasurement where
  "zero_GlucoseMeasurement =
     \<lparr>Timestamp = ZeroTime, Type = 0, ValueInMgPerDl = 0, MeasurementColor = 0,
      GlucoseUnits = 0, Value = Float64 0, IsHigh = False, IsLow = False, TrendArrow = 0,
      TrendMessage = None\<rparr>"

definition zero_Connection :: Connection where
  "zero_Connection =
     \<lparr>Id' = [], PatientId = [], FirstName = [], LastName = [], Email = [],
      DateOfBirth = [], EmailVerified = False, SignUpDate = [],
      GlucoseMeasurement = None, GlucoseItem = None\<rparr>"

definition zero_GraphData :: GraphData where
  "zero_GraphData = \<lparr>Connection = zero_Connection, GraphData = []\<rparr>"

subsection \<open>Authentication tickets\<close>

text \<open>
  \<^verbatim>\<open>AuthTicket.UnmarshalJSON\<close> decodes into an auxiliary struct whose integer fields
  \<^verbatim>\<open>expires\<close> and \<^verbatim>\<open>duration\<close> hide those of the ticket, then converts them: seconds
  since the epoch to a time, milliseconds to a duration in nanoseconds (a 64-bit
  product). The auxiliary value is a pointer passed by address: on \<^verbatim>\<open>null\<close> the decoder
  sets it to nil and the method dereferences nil.
\<close>

record AuthTicket_aux =
  aux_Expires :: int
  aux_Duration :: int
  aux_Alias :: AuthTicket

definition AuthTicket_aux_member :: "string \<Rightarrow> json \<Rightarrow> AuthTicket_aux \<Rightarrow> AuthTicket_aux dec" where
  "AuthTicket_aux_member k v a =
     (if k = ''expires'' then dec_set (dec_int v (aux_Expires a)) (\<lambda>x. a\<lparr>aux_Expires := x\<rparr>)
      else if k = ''duration'' then
        dec_set (dec_int v (aux_Duration a)) (\<lambda>x. a\<lparr>aux_Duration := x\<rparr>)
      else if k = ''token'' then
        dec_set (dec_string v (Token (aux_Alias a)))
          (\<lambda>x. a\<lparr>aux_Alias := (aux_Alias a)\<lparr>Token := x\<rparr>\<rparr>)
      else Done a False)"

definition AuthTicket_UnmarshalJSON :: "json \<Rightarrow> AuthTicket \<Rightarrow> AuthTicket dec" where
  "AuthTicket_UnmarshalJSON data t =
     (case data of
        JNull \<Rightarrow> Crash
      | _ \<Rightarrow>
          (case unmarshal (dec_struct AuthTicket_aux_member data
                  \<lparr>aux_Expires = 0, aux_Duration = 0, aux_Alias = t\<rparr>) of
             Err e \<Rightarrow> Abort e
           | Panic \<Rightarrow> Crash
           | Ok aux \<Rightarrow>
               Done ((aux_Alias aux)\<lparr>Expires := Unix (aux_Expires aux),
                       Duration := wrap64 (aux_Duration aux * 1000000)\<rparr>) False))"

subsection \<open>Envelope, login payload, redirect marker\<close>

definition LibreLinkError_member :: "string \<Rightarrow> json \<Rightarrow> LibreLinkError \<Rightarrow> LibreLinkError dec" where
  "LibreLinkError_member k v e =
     (if k = ''message'' then dec_set (dec_string v (Message e)) (\<lambda>x. e\<lparr>Message := x\<rparr>)
      else Done e False)"

definition dec_LibreLinkError_ptr :: "json \<Rightarrow> LibreLinkError option \<Rightarrow> LibreLinkError option dec" where
  "dec_LibreLinkError_ptr j cur =
     (case j of
        JNull \<Rightarrow> Done None False
      | _ \<Rightarrow>
          dec_set (dec_struct LibreLinkError_member j
                     (case cur of None \<Rightarrow> \<lparr>Message = []\<rparr> | Some e \<Rightarrow> e)) Some)"

definition LibreLinkResp_member :: "string \<Rightarrow> json \<Rightarrow> LibreLinkResp \<Rightarrow> LibreLinkResp dec" where
  "LibreLinkResp_member k v r =
     (if k = ''status'' then dec_set (dec_int v (Status r)) (\<lambda>x. r\<lparr>Status := x\<rparr>)
      else if k = ''data'' then Done (r\<lparr>Data := Some v\<rparr>) False
      else if k = ''ticket'' then
        dec_set (AuthTicket_UnmarshalJSON v (Ticket r)) (\<lambda>x. r\<lparr>Ticket := x\<rparr>)
      else if k = ''error'' then
        dec_set (dec_LibreLinkError_ptr v (Error r)) (\<lambda>x. r\<lparr>Error := x\<rparr>)
      else Done r False)"

definition dec_LibreLinkResp :: "json \<Rightarrow> LibreLinkResp dec" where
  "dec_LibreLinkResp j = dec_struct LibreLinkResp_member j zero_LibreLinkResp"

definition User_member :: "string \<Rightarrow> json \<Rightarrow> User \<Rightarrow> User dec" where
  "User_member k v u =
     (if k = ''id'' then dec_set (dec_string v (ID u)) (\<lambda>x. u\<lparr>ID := x\<rparr>)
      else if k = ''firstName'' then
        dec_set (dec_string v (User.FirstName u)) (\<lambda>x. u\<lparr>User.FirstName := x\<rparr>)
      else if k = ''lastName'' then
        dec_set (dec_string v (User.LastName u)) (\<lambda>x. u\<lparr>User.LastName := x\<rparr>)
      else if k = ''email'' then
        dec_set (dec_string v (User.Email u)) (\<lambda>x. u\<lparr>User.Email := x\<rparr>)
      else if k = ''country'' then dec_set (dec_string v (Country u)) (\<lambda>x. u\<lparr>Country := x\<rparr>)
      else Done u False)"

definition AuthResponse_member :: "string \<Rightarrow> json \<Rightarrow> AuthResponse \<Rightarrow> AuthResponse dec" where
  "AuthResponse_member k v r =
     (if k = ''user'' then dec_set (dec_struct User_member v (User r)) (\<lambda>x. r\<lparr>User := x\<rparr>)
      else if k = ''authTicket'' then
        dec_set (AuthTicket_UnmarshalJSON v (AuthTicket r)) (\<lambda>x. r\<lparr>AuthTicket := x\<rparr>)
      else Done r False)"

definition dec_AuthResponse :: "json \<Rightarrow> AuthResponse dec" where
  "dec_AuthResponse j = dec_struct AuthResponse_member j zero_AuthResponse"

definition RedirecResponse_member :: "string \<Rightarrow> json \<Rightarrow> RedirecResponse \<Rightarrow> RedirecResponse dec" where
  "RedirecResponse_member k v r =
     (if k = ''redirect'' then dec_set (dec_bool v (Redirect r)) (\<lambda>x. r\<lparr>Redirect := x\<rparr>)
      else if k = ''region'' then dec_set (dec_string v (Region r)) (\<lambda>x. r\<lparr>Region := x\<rparr>)
      else Done r False)"

definition dec_RedirecResponse :: "json \<Rightarrow> RedirecResponse dec" where
  "dec_RedirecResponse j = dec_struct RedirecResponse_member j zero_RedirecResponse"

subsection \<open>Glucose measurements, connections, graph data\<close>

text \<open>
  \<^verbatim>\<open>GlucoseMeasurement.UnmarshalJSON\<close> reads \<^verbatim>\<open>FactoryTimestamp\<close> as a string into an
  auxiliary struct, the other members into the measurement, and then parses the string;
  an error of either step is returned. As for the ticket, \<^verbatim>\<open>null\<close> leaves the
  auxiliary pointer nil, which the method dereferences.
\<close>

record GlucoseMeasurement_aux =
  aux_Timestamp :: string
  aux_Measurement :: GlucoseMeasurement

definition GlucoseMeasurement_aux_member ::
  "string \<Rightarrow> json \<Rightarrow> GlucoseMeasurement_aux \<Rightarrow> GlucoseMeasurement_aux dec" where
  "GlucoseMeasurement_aux_member k v a =
     (let g = aux_Measurement a; put = (\<lambda>g'. a\<lparr>aux_Measurement := g'\<rparr>) in
      if k = ''FactoryTimestamp'' then
        dec_set (dec_string v (aux_Timestamp a)) (\<lambda>x. a\<lparr>aux_Timestamp := x\<rparr>)
      else if k = ''type'' then dec_set (dec_int v (Type g)) (\<lambda>x. put (g\<lparr>Type := x\<rparr>))
      else if k = ''ValueInMgPerDl'' then
        dec_set (dec_int v (ValueInMgPerDl g)) (\<lambda>x. put (g\<lparr>ValueInMgPerDl := x\<rparr>))
      else if k = ''MeasurementColor'' then
        dec_set (dec_int v (MeasurementColor g)) (\<lambda>x. put (g\<lparr>MeasurementColor := x\<rparr>))
      else if k = ''GlucoseUnits'' then
        dec_set (dec_int v (GlucoseUnits g)) (\<lambda>x. put (g\<lparr>GlucoseUnits := x\<rparr>))
      else if k = ''Value'' then dec_set (dec_float64 v (Value g)) (\<lambda>x. put (g\<lparr>Value := x\<rparr>))
      else if k = ''isHigh'' then dec_set (dec_bool v (IsHigh g)) (\<lambda>x. put (g\<lparr>IsHigh := x\<rparr>))
      else if k = ''isLow'' then dec_set (dec_bool v (IsLow g)) (\<lambda>x. put (g\<lparr>IsLow := x\<rparr>))
      else if k = ''TrendArrow'' then
        dec_set (dec_int v (TrendArrow g)) (\<lambda>x. put (g\<lparr>TrendArrow := x\<rparr>))
      else if k = ''TrendMessage'' then
        dec_set (dec_string_ptr v (TrendMessage g)) (\<lambda>x. put (g\<lparr>TrendMessage := x\<rparr>))
      else Done a False)"

definition GlucoseMeasurement_UnmarshalJSON ::
  "json \<Rightarrow> GlucoseMeasurement \<Rightarrow> GlucoseMeasurement dec" where
  "GlucoseMeasurement_UnmarshalJSON data g =
     (case data of
        JNull \<Rightarrow> Crash
      | _ \<Rightarrow>
          (case unmarshal (dec_struct GlucoseMeasurement_aux_member data
                  \<lparr>aux_Timestamp = [], aux_Measurement = g\<rparr>) of
             Err e \<Rightarrow> Abort e
           | Panic \<Rightarrow> Crash
           | Ok aux \<Rightarrow>
               (case parseDate (aux_Timestamp aux) of
                  Err e \<Rightarrow> Abort e
                | Panic \<Rightarrow> Crash
                | Ok t \<Rightarrow> Done ((aux_Measurement aux)\<lparr>Timestamp := t\<rparr>) False)))"

text \<open>A \<^verbatim>\<open>*GlucoseMeasurement\<close> field: \<^verbatim>\<open>null\<close> makes it nil without calling the method.\<close>

definition dec_GlucoseMeasurement_ptr ::
  "json \<Rightarrow> GlucoseMeasurement option \<Rightarrow> GlucoseMeasurement option dec" where
  "dec_GlucoseMeasurement_ptr j cur =
     (case j of
        JNull \<Rightarrow> Done None False
      | _ \<Rightarrow>
          dec_set (GlucoseMeasurement_UnmarshalJSON j
                     (case cur of None \<Rightarrow> zero_GlucoseMeasurement | Some g \<Rightarrow> g)) Some)"

definition Connection_member :: "string \<Rightarrow> json \<Rightarrow> Connection \<Rightarrow> Connection dec" where
  "Connection_member k v c =
     (if k = ''id'' then dec_set (dec_string v (Id' c)) (\<lambda>x. c\<lparr>Id' := x\<rparr>)
      else if k = ''patientId'' then
        dec_set (dec_string v (PatientId c)) (\<lambda>x. c\<lparr>PatientId := x\<rparr>)
      else if k = ''firstName'' then
        dec_set (dec_string v (FirstName c)) (\<lambda>x. c\<lparr>FirstName := x\<rparr>)
      else if k = ''lastName'' then dec_set (dec_string v (LastName c)) (\<lambda>x. c\<lparr>LastName := x\<rparr>)
      else if k = ''email'' then dec_set (dec_string v (Email c)) (\<lambda>x. c\<lparr>Email := x\<rparr>)
      else if k = ''dateOfBirth'' then
        dec_set (dec_string v (DateOfBirth c)) (\<lambda>x. c\<lparr>DateOfBirth := x\<rparr>)
      else if k = ''emailVerified'' then
        dec_set (dec_bool v (EmailVerified c)) (\<lambda>x. c\<lparr>EmailVerified := x\<rparr>)
      else if k = ''signUpDate'' then
        dec_set (dec_string v (SignUpDate c)) (\<lambda>x. c\<lparr>SignUpDate := x\<rparr>)
      else if k = ''glucoseMeasurement'' then
        dec_set (dec_GlucoseMeasurement_ptr v (GlucoseMeasurement c))
          (\<lambda>x. c\<lparr>GlucoseMeasurement := x\<rparr>)
      else if k = ''glucoseItem'' then
        dec_set (dec_GlucoseMeasurement_ptr v (GlucoseItem c)) (\<lambda>x. c\<lparr>GlucoseItem := x\<rparr>)
      else Done c False)"

definition dec_Connections :: "json \<Rightarrow> Connection list dec" where
  "dec_Connections j =
     dec_slice (\<lambda>e. dec_struct Connection_member e zero_Connection) j []"

definition GraphData_member :: "string \<Rightarrow> json \<Rightarrow> GraphData \<Rightarrow> GraphData dec" where
  "GraphData_member k v d =
     (if k = ''connection'' then
        dec_set (dec_struct Connection_member v (Connection d)) (\<lambda>x. d\<lparr>Connection := x\<rparr>)
      else if k = ''graphData'' then
        dec_set (dec_slice (\<lambda>e. GlucoseMeasurement_UnmarshalJSON e zero_GlucoseMeasurement) v
                   (GraphData d))
          (\<lambda>x. d\<lparr>GraphData := x\<rparr>)
      else Done d False)"

definition dec_GraphData :: "json \<Rightarrow> GraphData dec" where
  "dec_GraphData j = dec_struct GraphData_member j zero_GraphData"

text \<open>\<^verbatim>\<open>getPayload(resp, &out)\<close>: the payload of the envelope decoded into \<open>out\<close>.\<close>

definition getPayload :: "LibreLinkResp \<Rightarrow> (json \<Rightarrow> 'a dec) \<Rightarrow> 'a result" where
  "getPayload resp f = json_Unmarshal (Data resp) f"


section \<open>The LibreLink client\<close>

text \<open>
  What the client takes from other packages is a parameter of the model: the digest
  \<^verbatim>\<open>hex(sha256(userId))\<close>, whether \<^verbatim>\<open>url.Parse\<close> accepts a text, the text of
  \<^verbatim>\<open>baseUrl.JoinPath(endpoint)\<close>, whether \<^verbatim>\<open>http.NewRequestWithContext\<close> accepts a method
  and a URL, and the remote service behind \<^verbatim>\<open>httpClient.Do\<close>: a transition on a state
  \<open>'s\<close> of the remote side that answers a request. An answer is a transport failure or
  an HTTP status code with a body; the body is \<open>None\<close> when it is not a JSON document.
  Header names are written as in the source. The logger only writes log records and is
  left out.
\<close>

record request =
  Method :: string
  URL :: string
  Header :: "(string \<times> string) list"
  Body :: "json option"

datatype http_result = TransportFailure | Response int "json option"

record 's env =
  sha256_hex :: "string \<Rightarrow> string"
  url_Parse :: "string \<Rightarrow> bool"
  url_JoinPath :: "string \<Rightarrow> string \<Rightarrow> string"
  http_NewRequest :: "string \<Rightarrow> string \<Rightarrow> bool"
  http_Do :: "'s \<Rightarrow> request \<Rightarrow> http_result \<times> 's"

record librelinkCreds =
  ticket :: AuthTicket
  id' :: string

definition NewLibreLinkCreds :: "'s env \<Rightarrow> string \<Rightarrow> AuthTicket \<Rightarrow> librelinkCreds" where
  "NewLibreLinkCreds E userId t = \<lparr>ticket = t, id' = sha256_hex E userId\<rparr>"

record LibreLinkClient =
  baseUrl :: string
  user :: string
  password :: string
  creds :: "librelinkCreds option"

definition WithExpiringCredentials ::
  "'s env \<Rightarrow> string \<Rightarrow> string \<Rightarrow> Time \<Rightarrow> LibreLinkClient \<Rightarrow> LibreLinkClient" where
  "WithExpiringCredentials E userId token expiry c =
     c\<lparr>creds := Some (NewLibreLinkCreds E userId
                        \<lparr>Token = token, Expires = expiry, Duration = 0\<rparr>)\<rparr>"

definition WithCredentials :: "'s env \<Rightarrow> string \<Rightarrow> string \<Rightarrow> LibreLinkClient \<Rightarrow> LibreLinkClient" where
  "WithCredentials E userId token = WithExpiringCredentials E userId token ZeroTime"

definition NewLibreLinkClient ::
  "string \<Rightarrow> string \<Rightarrow> (LibreLinkClient \<Rightarrow> LibreLinkClient) list \<Rightarrow> LibreLinkClient" where
  "NewLibreLinkClient usr pwd options =
     fold (\<lambda>option client. option client) options
       \<lparr>baseUrl = ''https://api.libreview.io'', user = usr, password = pwd, creds = None\<rparr>"

definition handleRedirect ::
  "'s env \<Rightarrow> LibreLinkClient \<Rightarrow> LibreLinkResp \<Rightarrow> bool result \<times> LibreLinkClient" where
  "handleRedirect E c resp =
     (case getPayload resp dec_RedirecResponse of
        Err e \<Rightarrow> (Ok False, c)
      | Panic \<Rightarrow> (Panic, c)
      | Ok redirect \<Rightarrow>
          if \<not> Redirect redirect then (Ok False, c)
          else if Region redirect = [] then
            (Err (Errorf ''redirect requested but no region provided''), c)
          else if \<not> url_Parse E (getUrl (Region redirect)) then
            (Err (Wrap ''failed to parse redirect URL'' UrlError), c)
          else (Ok True, c\<lparr>baseUrl := getUrl (Region redirect)\<rparr>))"

definition prepareRequest ::
  "'s env \<Rightarrow> LibreLinkClient \<Rightarrow> string \<Rightarrow> string \<Rightarrow> json option \<Rightarrow> request result" where
  "prepareRequest E c meth endpoint body =
     (let rel = url_JoinPath E (baseUrl c) endpoint in
      if \<not> http_NewRequest E meth rel then Err (Wrap ''failed to create request'' UrlError)
      else
        Ok \<lparr>Method = meth, URL = rel,
            Header =
              [(''Accept'', ''application/json''),
               (''Content-Type'', ''application/json''),
               (''product'', ''llu.android''),
               (''version'', ''4.16.0''),
               (''cache-control'', ''no-cache''),
               (''connection'', ''Keep-Alive'')] @
              (case creds c of
                 Some cr \<Rightarrow>
                   [(''account-id'', id' cr),
                    (''Authorization'', ''Bearer '' @ Token (ticket cr))]
               | None \<Rightarrow> []),
            Body = body\<rparr>)"

text \<open>
  The body of a request is an \<^verbatim>\<open>io.Reader\<close> (nil, or the buffer \<^verbatim>\<open>Authenticate\<close> makes),
  given as what is left to read. The transport has read it to its end when the response
  arrives: a request built from the same reader afterwards has no body.
\<close>

definition consumed :: "json option \<Rightarrow> json option" where
  "consumed body = None"

text \<open>
  \<^verbatim>\<open>doRequest\<close>. The function calls itself after a redirect, with the reader it was
  given, and may not return: it is a partial function, \<open>None\<close> when it does not return.
  With a non-zero status and no \<^verbatim>\<open>error\<close> member in the envelope,
  \<^verbatim>\<open>libreResp.Error.Message\<close> dereferences nil.
\<close>

partial_function (option) doRequest ::
  "'s env \<Rightarrow> 's \<Rightarrow> LibreLinkClient \<Rightarrow> string \<Rightarrow> string \<Rightarrow> json option
     \<Rightarrow> (LibreLinkResp result \<times> 's \<times> LibreLinkClient) option" where
  [code]: "doRequest E srv c meth endpoint body =
     (case prepareRequest E c meth endpoint body of
        Err e \<Rightarrow> Some (Err (Wrap ''failed to prepare request'' e), srv, c)
      | Panic \<Rightarrow> Some (Panic, srv, c)
      | Ok req \<Rightarrow>
          (case http_Do E srv req of
             (TransportFailure, srv') \<Rightarrow>
               Some (Err (Wrap ''request failed'' TransportError), srv', c)
           | (Response code raw, srv') \<Rightarrow>
               if code \<noteq> 200 then Some (Err (UnexpectedStatusCode code), srv', c)
               else
                 (case json_Unmarshal raw dec_LibreLinkResp of
                    Err e \<Rightarrow> Some (Err (Wrap ''failed to decode response body'' e), srv', c)
                  | Panic \<Rightarrow> Some (Panic, srv', c)
                  | Ok libreResp \<Rightarrow>
                      if Status libreResp \<noteq> 0 then
                        (case Error libreResp of
                           None \<Rightarrow> Some (Panic, srv', c)
                         | Some er \<Rightarrow>
                             Some (Err (ApiError (Status libreResp) (Message er)), srv', c))
                      else
                        (case handleRedirect E c libreResp of
                           (Err e, c') \<Rightarrow>
                             Some (Err (Wrap ''failed to handle redirect'' e), srv', c')
                         | (Panic, c') \<Rightarrow> Some (Panic, srv', c')
                         | (Ok redirected, c') \<Rightarrow>
                             if redirected then doRequest E srv' c' meth endpoint (consumed body)
                             else Some (Ok libreResp, srv', c')))))"

text \<open>
  \<^verbatim>\<open>Authenticate\<close>. The request body is the JSON encoding of the \<^verbatim>\<open>AuthRequest\<close>, which
  cannot fail; it is kept as the document it encodes.
\<close>

definition marshal_AuthRequest :: "string \<Rightarrow> string \<Rightarrow> json" where
  "marshal_AuthRequest email pwd = JObj [(''email'', JStr email), (''password'', JStr pwd)]"

definition Authenticate ::
  "'s env \<Rightarrow> 's \<Rightarrow> LibreLinkClient \<Rightarrow> (unit result \<times> 's \<times> LibreLinkClient) option" where
  "Authenticate E srv c =
     (case doRequest E srv c ''POST'' ''llu/auth/login''
             (Some (marshal_AuthRequest (user c) (password c))) of
        None \<Rightarrow> None
      | Some (Err e, srv', c') \<Rightarrow> Some (Err e, srv', c')
      | Some (Panic, srv', c') \<Rightarrow> Some (Panic, srv', c')
      | Some (Ok resp, srv', c') \<Rightarrow>
          (case json_Unmarshal (Data resp) dec_AuthResponse of
             Err e \<Rightarrow> Some (Err (Wrap ''failed to decode response body'' e), srv', c')
           | Panic \<Rightarrow> Some (Panic, srv', c')
           | Ok authResp \<Rightarrow>
               Some (Ok (), srv',
                 c'\<lparr>creds := Some (NewLibreLinkCreds E (ID (User authResp))
                                     (AuthTicket authResp))\<rparr>)))"

definition GetConnections ::
  "'s env \<Rightarrow> 's \<Rightarrow> LibreLinkClient \<Rightarrow> (Connection list result \<times> 's \<times> LibreLinkClient) option" where
  "GetConnections E srv c =
     (case doRequest E srv c ''GET'' ''llu/connections'' None of
        None \<Rightarrow> None
      | Some (Err e, srv', c') \<Rightarrow> Some (Err e, srv', c')
      | Some (Panic, srv', c') \<Rightarrow> Some (Panic, srv', c')
      | Some (Ok resp, srv', c') \<Rightarrow>
          (case getPayload resp dec_Connections of
             Err e \<Rightarrow> Some (Err (Wrap ''failed to decode connections'' e), srv', c')
           | Panic \<Rightarrow> Some (Panic, srv', c')
           | Ok connections \<Rightarrow> Some (Ok connections, srv', c')))"

definition getGraphData ::
  "'s env \<Rightarrow> 's \<Rightarrow> LibreLinkClient \<Rightarrow> string
     \<Rightarrow> (GraphData result \<times> 's \<times> LibreLinkClient) option" where
  "getGraphData E srv c connectionId =
     (case doRequest E srv c ''GET'' (''llu/connections/'' @ connectionId @ ''/graph'') None of
        None \<Rightarrow> None
      | Some (Err e, srv', c') \<Rightarrow> Some (Err e, srv', c')
      | Some (Panic, srv', c') \<Rightarrow> Some (Panic, srv', c')
      | Some (Ok resp, srv', c') \<Rightarrow>
          (case getPayload resp dec_GraphData of
             Err e \<Rightarrow> Some (Err (Wrap ''failed to decode graph data'' e), srv', c')
           | Panic \<Rightarrow> Some (Panic, srv', c')
           | Ok graphData \<Rightarrow> Some (Ok graphData, srv', c')))"

text \<open>
  \<^verbatim>\<open>GetLatestReading\<close> returns \<^verbatim>\<open>*graphData.Connection.GlucoseMeasurement\<close>: with no
  current reading the pointer is nil and the dereference panics.
\<close>

definition GetLatestReading ::
  "'s env \<Rightarrow> 's \<Rightarrow> LibreLinkClient \<Rightarrow> string
     \<Rightarrow> (GlucoseMeasurement result \<times> 's \<times> LibreLinkClient) option" where
  "GetLatestReading E srv c connectionId =
     (case getGraphData E srv c connectionId of
        None \<Rightarrow> None
      | Some (Err e, srv', c') \<Rightarrow> Some (Err e, srv', c')
      | Some (Panic, srv', c') \<Rightarrow> Some (Panic, srv', c')
      | Some (Ok graphData, srv', c') \<Rightarrow>
          (case GlucoseMeasurement (Connection graphData) of
             None \<Rightarrow> Some (Panic, srv', c')
           | Some g \<Rightarrow> Some (Ok g, srv', c')))"

definition IsAuthenticated :: "LibreLinkClient \<Rightarrow> bool" where
  "IsAuthenticated c \<longleftrightarrow> creds c \<noteq> None"

text \<open>
  Modelled from the spec: the collector calls an exported \<^verbatim>\<open>GetGraphData\<close> of the client,
  which the sources do not contain. The specification describes it as
  \<^verbatim>\<open>fetchGraphData(connectionId)\<close>: it "returns current + historic readings for one
  connection", with the failure modes of the other operations. The client's own
  \<^verbatim>\<open>getGraphData\<close> does this and is taken as its body.
\<close>

definition GetGraphData ::
  "'s env \<Rightarrow> 's \<Rightarrow> LibreLinkClient \<Rightarrow> string
     \<Rightarrow> (GraphData result \<times> 's \<times> LibreLinkClient) option" where
  "GetGraphData E srv c connectionId = getGraphData E srv c connectionId"

section \<open>The metrics collector\<close>

text \<open>
  A descriptor is its fully qualified name, help text and label names. A metric sent on
  the channel is a descriptor, a gauge value, the label values and a timestamp; the
  channel is the list of the metrics sent so far. \<^verbatim>\<open>MustNewConstMetric\<close> panics when the
  number of label values differs from the number of label names of the descriptor. Its
  other check, that the label values are valid UTF-8, holds for every string decoded from
  JSON and is left out.
\<close>

record Desc =
  fqName :: string
  help' :: string
  variableLabels :: "string list"

record Metric =
  m_timestamp :: Time
  m_desc :: Desc
  m_value :: float64
  m_labelValues :: "string list"

record GlucoseCollector =
  glucoseLevelDesc :: Desc
  trendDesc :: Desc
  historicDataDesc :: Desc

definition BuildFQName :: "string \<Rightarrow> string \<Rightarrow> string \<Rightarrow> string" where
  "BuildFQName namespace subsystem name = namespace @ ''_'' @ subsystem @ ''_'' @ name"

definition NewGlucoseCollector :: GlucoseCollector where
  "NewGlucoseCollector =
     \<lparr>glucoseLevelDesc =
        \<lparr>fqName = BuildFQName ''glucose'' ''librelink'' ''level_mmoll'',
         help' = ''Current glucose level in mmmol/L'',
         variableLabels = [''patient_id'', ''patient_name'']\<rparr>,
      trendDesc =
        \<lparr>fqName = BuildFQName ''glucose'' ''librelink'' ''trend'',
         help' = ''Current glucose trend'',
         variableLabels = [''patient_id'', ''patient_name'']\<rparr>,
      historicDataDesc =
        \<lparr>fqName = BuildFQName ''glucose'' ''librelink'' ''historic_level'',
         help' = ''Historic glucose data'',
         variableLabels = [''patient_id'', ''patient_name'']\<rparr>\<rparr>"

definition MustNewConstMetric :: "Desc \<Rightarrow> float64 \<Rightarrow> string list \<Rightarrow> Metric result" where
  "MustNewConstMetric d v labelValues =
     (if length labelValues \<noteq> length (variableLabels d) then Panic
      else Ok \<lparr>m_timestamp = ZeroTime, m_desc = d, m_value = v, m_labelValues = labelValues\<rparr>)"

definition NewMetricWithTimestamp :: "Time \<Rightarrow> Metric \<Rightarrow> Metric" where
  "NewMetricWithTimestamp t m = m\<lparr>m_timestamp := t\<rparr>"

text \<open>One send on the channel: the metric is built first, then sent.\<close>

definition send :: "Metric list \<Rightarrow> Time \<Rightarrow> Metric result \<Rightarrow> unit result \<times> Metric list" where
  "send ch t r =
     (case r of
        Ok m \<Rightarrow> (Ok (), ch @ [NewMetricWithTimestamp t m])
      | Err e \<Rightarrow> (Panic, ch)
      | Panic \<Rightarrow> (Panic, ch))"

fun send_historic ::
  "GlucoseCollector \<Rightarrow> Connection \<Rightarrow> string \<Rightarrow> GlucoseMeasurement list \<Rightarrow> Metric list
     \<Rightarrow> unit result \<times> Metric list" where
  "send_historic gc connection patient_name [] ch = (Ok (), ch)"
| "send_historic gc connection patient_name (historic # rest) ch =
     (case send ch (Timestamp historic)
             (MustNewConstMetric (historicDataDesc gc) (Value historic)
                [PatientId connection, patient_name]) of
        (Ok u, ch') \<Rightarrow> send_historic gc connection patient_name rest ch'
      | (Err e, ch') \<Rightarrow> (Err e, ch')
      | (Panic, ch') \<Rightarrow> (Panic, ch'))"

definition collectGlucose ::
  "'s env \<Rightarrow> GlucoseCollector \<Rightarrow> Connection \<Rightarrow> Metric list \<Rightarrow> 's \<Rightarrow> LibreLinkClient
     \<Rightarrow> (unit result \<times> Metric list \<times> 's \<times> LibreLinkClient) option" where
  "collectGlucose E gc connection ch srv c =
     (case GetGraphData E srv c (PatientId connection) of
        None \<Rightarrow> None
      | Some (Err e, srv', c') \<Rightarrow> Some (Ok (), ch, srv', c')
      | Some (Panic, srv', c') \<Rightarrow> Some (Panic, ch, srv', c')
      | Some (Ok data, srv', c') \<Rightarrow>
          (case GlucoseMeasurement (Connection data) of
             None \<Rightarrow> Some (Ok (), ch, srv', c')
           | Some reading \<Rightarrow>
               (let patient_name = FirstName connection @ '' '' @ LastName connection in
                case send ch (Timestamp reading)
                       (MustNewConstMetric (glucoseLevelDesc gc) (Value reading)
                          [PatientId connection, patient_name]) of
                  (Err e, ch1) \<Rightarrow> Some (Err e, ch1, srv', c')
                | (Panic, ch1) \<Rightarrow> Some (Panic, ch1, srv', c')
                | (Ok u, ch1) \<Rightarrow>
                    (case send ch1 (Timestamp reading)
                            (MustNewConstMetric (trendDesc gc)
                               (Float64 (of_int (TrendArrow reading)))
                               [PatientId connection, patient_name]) of
                       (Err e, ch2) \<Rightarrow> Some (Err e, ch2, srv', c')
                     | (Panic, ch2) \<Rightarrow> Some (Panic, ch2, srv', c')
                     | (Ok u, ch2) \<Rightarrow>
                         (case send_historic gc connection patient_name (GraphData data) ch2 of
                            (r, ch3) \<Rightarrow> Some (r, ch3, srv', c'))))))"

text \<open>The loop of \<^verbatim>\<open>Collect\<close> over the connections, in the order of the list.\<close>

fun collect_loop ::
  "'s env \<Rightarrow> GlucoseCollector \<Rightarrow> Connection list \<Rightarrow> Metric list \<Rightarrow> 's \<Rightarrow> LibreLinkClient
     \<Rightarrow> (unit result \<times> Metric list \<times> 's \<times> LibreLinkClient) option" where
  "collect_loop E gc [] ch srv c = Some (Ok (), ch, srv, c)"
| "collect_loop E gc (x # xs) ch srv c =
     (case collectGlucose E gc x ch srv c of
        None \<Rightarrow> None
      | Some (Ok u, ch', srv', c') \<Rightarrow> collect_loop E gc xs ch' srv' c'
      | Some (Err e, ch', srv', c') \<Rightarrow> Some (Err e, ch', srv', c')
      | Some (Panic, ch', srv', c') \<Rightarrow> Some (Panic, ch', srv', c'))"

text \<open>
  \<^verbatim>\<open>Collect\<close>: one scrape. It returns nothing; the result is the list of the metrics it
  sent (the observations of the scrape), with the state of the remote side and of the
  client after it.
\<close>

definition Collect ::
  "'s env \<Rightarrow> GlucoseCollector \<Rightarrow> 's \<Rightarrow> LibreLinkClient
     \<Rightarrow> (unit result \<times> Metric list \<times> 's \<times> LibreLinkClient) option" where
  "Collect E gc srv c =
     (case (if \<not> IsAuthenticated c then Authenticate E srv c else Some (Ok (), srv, c)) of
        None \<Rightarrow> None
      | Some (Err e, srv1, c1) \<Rightarrow> Some (Ok (), [], srv1, c1)
      | Some (Panic, srv1, c1) \<Rightarrow> Some (Panic, [], srv1, c1)
      | Some (Ok u, srv1, c1) \<Rightarrow>
          (case GetConnections E srv1 c1 of
             None \<Rightarrow> None
           | Some (Err e, srv2, c2) \<Rightarrow> Some (Ok (), [], srv2, c2)
           | Some (Panic, srv2, c2) \<Rightarrow> Some (Panic, [], srv2, c2)
           | Some (Ok conn, srv2, c2) \<Rightarrow> collect_loop E gc conn [] srv2 c2))"


section \<open>Notions used to state the properties\<close>

text \<open>
  The first half of \<^verbatim>\<open>doRequest\<close>, up to the decoded envelope: the request is prepared
  and sent, the HTTP status is checked and the body is decoded. It is used to say which
  envelope a request received.
\<close>

definition envelope_of ::
  "'s env \<Rightarrow> 's \<Rightarrow> LibreLinkClient \<Rightarrow> string \<Rightarrow> string \<Rightarrow> json option
     \<Rightarrow> LibreLinkResp result \<times> 's" where
  "envelope_of E srv c meth endpoint body =
     (case prepareRequest E c meth endpoint body of
        Err e \<Rightarrow> (Err (Wrap ''failed to prepare request'' e), srv)
      | Panic \<Rightarrow> (Panic, srv)
      | Ok req \<Rightarrow>
          (case http_Do E srv req of
             (TransportFailure, srv') \<Rightarrow> (Err (Wrap ''request failed'' TransportError), srv')
           | (Response code raw, srv') \<Rightarrow>
               if code \<noteq> 200 then (Err (UnexpectedStatusCode code), srv')
               else
                 (case json_Unmarshal raw dec_LibreLinkResp of
                    Err e \<Rightarrow> (Err (Wrap ''failed to decode response body'' e), srv')
                  | Panic \<Rightarrow> (Panic, srv')
                  | Ok libreResp \<Rightarrow> (Ok libreResp, srv'))))"


text \<open>
  An observation for a connection: a metric of the given descriptor with timestamp and
  value, labelled with the patient id of the connection and with its first and last name
  joined by a space.
\<close>

definition observation :: "Desc \<Rightarrow> Time \<Rightarrow> float64 \<Rightarrow> Connection \<Rightarrow> Metric" where
  "observation d t v x =
     \<lparr>m_timestamp = t, m_desc = d, m_value = v,
      m_labelValues = [PatientId x, FirstName x @ '' '' @ LastName x]\<rparr>"

text \<open>The observations of a scrape for a connection with a current reading.\<close>

definition observations :: "GlucoseCollector \<Rightarrow> Connection \<Rightarrow> GlucoseMeasurement
    \<Rightarrow> GlucoseMeasurement list \<Rightarrow> Metric list" where
  "observations gc x reading historic =
     [observation (glucoseLevelDesc gc) (Timestamp reading) (Value reading) x,
      observation (trendDesc gc) (Timestamp reading) (Float64 (of_int (TrendArrow reading))) x] @
     map (\<lambda>h. observation (historicDataDesc gc) (Timestamp h) (Value h) x) historic"

text \<open>A collector whose three descriptors have two label names, as the constructor's have.\<close>

definition two_labels :: "GlucoseCollector \<Rightarrow> bool" where
  "two_labels gc \<longleftrightarrow>
     length (variableLabels (glucoseLevelDesc gc)) = 2 \<and>
     length (variableLabels (trendDesc gc)) = 2 \<and>
     length (variableLabels (historicDataDesc gc)) = 2"

text \<open>The first step of \<^verbatim>\<open>Collect\<close>: log in unless credentials are held.\<close>

definition ensure_session ::
  "'s env \<Rightarrow> 's \<Rightarrow> LibreLinkClient \<Rightarrow> (unit result \<times> 's \<times> LibreLinkClient) option" where
  "ensure_session E srv c =
     (if \<not> IsAuthenticated c then Authenticate E srv c else Some (Ok (), srv, c))"


section \<open>Example remotes and documents\<close>

text \<open>
  A remote that answers from a script, one entry for each request it receives (a
  transport failure once the script is used up), and a remote that answers every request
  with a redirect to the region \<^verbatim>\<open>de\<close>. In both, every URL is accepted, a path is joined
  with a slash, and the digest is a tag in front of its argument.
\<close>

definition scripted :: "http_result list env" where
  "scripted =
     \<lparr>sha256_hex = (\<lambda>s. ''sha256:'' @ s),
      url_Parse = (\<lambda>u. True),
      url_JoinPath = (\<lambda>b e. b @ ''/'' @ e),
      http_NewRequest = (\<lambda>m u. True),
      http_Do = (\<lambda>srv req. case srv of [] \<Rightarrow> (TransportFailure, []) | r # rs \<Rightarrow> (r, rs))\<rparr>"

definition envelope :: "json \<Rightarrow> http_result" where
  "envelope d = Response 200 (Some (JObj [(''status'', JNum (IntLit 0)), (''data'', d)]))"

definition redirect_to :: "string \<Rightarrow> json" where
  "redirect_to r = JObj [(''redirect'', JBool True), (''region'', JStr r)]"

definition always_redirect :: "unit env" where
  "always_redirect =
     \<lparr>sha256_hex = (\<lambda>s. ''sha256:'' @ s),
      url_Parse = (\<lambda>u. True),
      url_JoinPath = (\<lambda>b e. b @ ''/'' @ e),
      http_NewRequest = (\<lambda>m u. True),
      http_Do = (\<lambda>srv req. (envelope (redirect_to ''de''), srv))\<rparr>"

text \<open>A client that never logged in, and one that was given a token at start.\<close>

definition client0 :: LibreLinkClient where
  "client0 = NewLibreLinkClient ''ada@example.org'' ''secret'' []"

definition client1 :: LibreLinkClient where
  "client1 =
     NewLibreLinkClient ''ada@example.org'' ''secret'' [WithCredentials scripted ''u-1'' ''tok'']"

text \<open>Answers of the remote: a rejection, a login, connections, graph data.\<close>

definition rejection :: "int \<Rightarrow> string \<Rightarrow> http_result" where
  "rejection st msg =
     Response 200 (Some (JObj [(''status'', JNum (IntLit st)),
                               (''error'', JObj [(''message'', JStr msg)])]))"

text \<open>A rejection that carries a status and no \<^verbatim>\<open>error\<close> member.\<close>

definition status_only :: "int \<Rightarrow> http_result" where
  "status_only st = Response 200 (Some (JObj [(''status'', JNum (IntLit st))]))"

definition login_data :: json where
  "login_data =
     JObj [(''user'', JObj [(''id'', JStr ''u-1''), (''firstName'', JStr ''Ada'')]),
           (''authTicket'',
            JObj [(''token'', JStr ''tok''), (''expires'', JNum (IntLit 1773417313)),
                  (''duration'', JNum (IntLit 15552000000))])]"

definition connection_doc :: "string \<Rightarrow> string \<Rightarrow> string \<Rightarrow> json" where
  "connection_doc pid firstName lastName =
     JObj [(''id'', JStr (''c-'' @ pid)), (''patientId'', JStr pid),
           (''firstName'', JStr firstName), (''lastName'', JStr lastName)]"

definition reading_doc :: "string \<Rightarrow> rat \<Rightarrow> int \<Rightarrow> json" where
  "reading_doc t v arrow =
     JObj [(''FactoryTimestamp'', JStr t), (''Value'', JNum (RealLit v)),
           (''isHigh'', JBool False), (''isLow'', JBool False),
           (''TrendArrow'', JNum (IntLit arrow))]"

definition graph_doc :: "string \<Rightarrow> json option \<Rightarrow> json list \<Rightarrow> json" where
  "graph_doc pid current historic =
     JObj [(''connection'',
            JObj ([(''patientId'', JStr pid)] @
                  (case current of None \<Rightarrow> [] | Some r \<Rightarrow> [(''glucoseMeasurement'', r)]))),
           (''graphData'', JArr historic)]"


text \<open>The values the example documents decode to.\<close>

definition connection_val :: "string \<Rightarrow> string \<Rightarrow> string \<Rightarrow> Connection" where
  "connection_val pid firstName lastName =
     zero_Connection\<lparr>Id' := ''c-'' @ pid, PatientId := pid, FirstName := firstName,
       LastName := lastName\<rparr>"

definition reading_val :: "Time \<Rightarrow> rat \<Rightarrow> int \<Rightarrow> GlucoseMeasurement" where
  "reading_val t v arrow =
     zero_GlucoseMeasurement\<lparr>Timestamp := t, Value := Float64 v, TrendArrow := arrow\<rparr>"

definition client_logged_in :: LibreLinkClient where
  "client_logged_in =
     client0\<lparr>creds := Some \<lparr>ticket = \<lparr>Token = ''tok'', Expires = Unix 1773417313,
                                         Duration = 15552000000000000\<rparr>,
                              id' = ''sha256:u-1''\<rparr>\<rparr>"


section \<open>Date strings of the format\<close>

text \<open>
  The strings of the form \<^verbatim>\<open>M/D/YYYY h:mm:ss AM|PM\<close>, in the words of the specification:
  month, day and hour without a leading zero, a year of four digits, minute and second of
  two digits, single separators, for a date of the calendar and a time of the 12-hour
  clock. \<open>hour24\<close> is the hour of the day it denotes.
\<close>

definition digit_char :: "nat \<Rightarrow> char" where
  "digit_char d = char_of (48 + d)"

definition show_num :: "nat \<Rightarrow> string" where
  "show_num n =
     (if n < 10 then [digit_char n] else [digit_char (n div 10), digit_char (n mod 10)])"

definition pad2 :: "nat \<Rightarrow> string" where
  "pad2 n = [digit_char (n div 10), digit_char (n mod 10)]"

definition pad4 :: "nat \<Rightarrow> string" where
  "pad4 n =
     [digit_char (n div 1000), digit_char (n div 100 mod 10), digit_char (n div 10 mod 10),
      digit_char (n mod 10)]"

definition format_DateFormat :: "nat \<Rightarrow> nat \<Rightarrow> nat \<Rightarrow> nat \<Rightarrow> nat \<Rightarrow> nat \<Rightarrow> bool \<Rightarrow> string" where
  "format_DateFormat month day year hour minute sec pm =
     show_num month @ ''/'' @ show_num day @ ''/'' @ pad4 year @ '' '' @
     show_num hour @ '':'' @ pad2 minute @ '':'' @ pad2 sec @ '' '' @
     (if pm then ''PM'' else ''AM'')"

definition valid_fields :: "nat \<Rightarrow> nat \<Rightarrow> nat \<Rightarrow> nat \<Rightarrow> nat \<Rightarrow> nat \<Rightarrow> bool" where
  "valid_fields month day year hour minute sec \<longleftrightarrow>
     1 \<le> month \<and> month \<le> 12 \<and> 1 \<le> day \<and> day \<le> daysIn month year \<and> year \<le> 9999 \<and>
     1 \<le> hour \<and> hour \<le> 12 \<and> minute < 60 \<and> sec < 60"

definition hour24 :: "nat \<Rightarrow> bool \<Rightarrow> nat" where
  "hour24 hour pm =
     (if pm then (if hour < 12 then hour + 12 else hour) else (if hour = 12 then 0 else hour))"

definition well_formed :: "string \<Rightarrow> bool" where
  "well_formed s \<longleftrightarrow>
     (\<exists>month day year hour minute sec pm.
        valid_fields month day year hour minute sec \<and>
        s = format_DateFormat month day year hour minute sec pm)"

text \<open>
  The strings the parser accepts, with the instant it returns for them. Beyond the form
  above they may have a leading zero in month, day and hour, the hour 0, a run of spaces
  where the layout has a space, and a fraction of a second (a period or a comma and
  digits, of which nine count) after the seconds.
\<close>

definition numeral12 :: "string \<Rightarrow> bool" where
  "numeral12 ds \<longleftrightarrow> (length ds = 1 \<or> length ds = 2) \<and> list_all isDigit ds"

definition numeral :: "nat \<Rightarrow> string \<Rightarrow> bool" where
  "numeral n ds \<longleftrightarrow> length ds = n \<and> list_all isDigit ds"

definition spaces :: "nat \<Rightarrow> string" where
  "spaces n = replicate n CHR '' ''"

definition fraction :: "string \<Rightarrow> nat \<Rightarrow> bool" where
  "fraction fr nsec \<longleftrightarrow>
     fr = [] \<and> nsec = 0 \<or>
     (\<exists>sep fd. fr = sep # fd \<and> commaOrPeriod sep \<and> fd \<noteq> [] \<and> list_all isDigit fd \<and>
        nsec = digits (take 9 fd) * 10 ^ (9 - length (take 9 fd)))"

definition tolerated :: "string \<Rightarrow> Time \<Rightarrow> bool" where
  "tolerated s t \<longleftrightarrow>
     (\<exists>md dd yd n1 hrd mind secd fr nsec n2 pm.
        s = md @ ''/'' @ dd @ ''/'' @ yd @ spaces (Suc n1) @ hrd @ '':'' @ mind @ '':'' @ secd @
            fr @ spaces (Suc n2) @ (if pm then ''PM'' else ''AM'') \<and>
        numeral12 md \<and> numeral12 dd \<and> numeral 4 yd \<and> numeral12 hrd \<and> numeral 2 mind \<and>
        numeral 2 secd \<and> fraction fr nsec \<and>
        1 \<le> digits md \<and> digits md \<le> 12 \<and>
        1 \<le> digits dd \<and> digits dd \<le> daysIn (digits md) (digits yd) \<and>
        digits hrd \<le> 12 \<and> digits mind < 60 \<and> digits secd < 60 \<and>
        t = Date (digits yd) (digits md) (digits dd) (hour24 (digits hrd) pm) (digits mind)
              (digits secd) nsec)"

text \<open>An instant of the calendar and the clock, as opposed to the zero time.\<close>

definition valid_instant :: "Time \<Rightarrow> bool" where
  "valid_instant t =
     (case t of
        Date year month day hour minute sec nsec \<Rightarrow>
          1 \<le> month \<and> month \<le> 12 \<and> 1 \<le> day \<and> day \<le> daysIn month year \<and> year \<le> 9999 \<and>
          hour < 24 \<and> minute < 60 \<and> sec < 60 \<and> nsec < 10 ^ 9
      | _ \<Rightarrow> False)"

text \<open>
  The date string of a measurement document: the text its decoder holds for the member
  \<^verbatim>\<open>FactoryTimestamp\<close> when it calls \<^verbatim>\<open>parseDate\<close>.
\<close>

definition timestamp_text :: "json \<Rightarrow> GlucoseMeasurement \<Rightarrow> string" where
  "timestamp_text data g =
     (case dec_struct GlucoseMeasurement_aux_member data
             \<lparr>aux_Timestamp = [], aux_Measurement = g\<rparr> of
        Done aux e \<Rightarrow> aux_Timestamp aux
      | _ \<Rightarrow> [])"


section \<open>Theorems\<close>

subsection \<open>Base URL resolution\<close>

text \<open>
  C4 (as stated, refuted). For the region \<^verbatim>\<open>de\<close> the client does not resolve the host
  \<^verbatim>\<open>https://api.de.libreview.io\<close> of the specification's pattern: the region is joined
  to \<^verbatim>\<open>api\<close> with a hyphen, not with a dot.
\<close>

theorem getUrl_dot_pattern_counterexample:
  "getUrl ''de'' = ''https://api-de.libreview.io'' \<and> getUrl ''de'' \<noteq> spec_base_host ''de''"
  by (simp add: getUrl_def spec_base_host_def)

text \<open>
  C4 (amended). With no region the base URL is the bare \<^verbatim>\<open>https://api.libreview.io\<close>;
  for every nonempty region it is \<^verbatim>\<open>https://api-<region>.libreview.io\<close>. The result is
  a function of the region code alone.
\<close>

theorem getUrl_region_pattern:
  "getUrl '''' = ''https://api.libreview.io'' \<and>
   (region \<noteq> '''' \<longrightarrow> getUrl region = ''https://api-'' @ region @ ''.libreview.io'')"
  by (simp add: getUrl_def)

theorem getUrl_region_pattern_witness:
  "''de'' \<noteq> '''' \<and> getUrl '''' = ''https://api.libreview.io'' \<and>
   getUrl ''de'' = ''https://api-de.libreview.io''"
  using getUrl_region_pattern [of "''de''"] by simp

subsection \<open>The example remotes and documents, evaluated\<close>

lemmas dec_defs = unmarshal_def dec_struct_def dec_set_def dec_string_def dec_bool_def
  dec_int_def dec_float64_def dec_string_ptr_def dec_slice_def in_int64_def in_float64_def

lemma scripted_sel:
  "http_Do scripted (r # rs) req = (r, rs)"
  "http_Do scripted [] req = (TransportFailure, [])"
  "url_Parse scripted u"
  "http_NewRequest scripted m u"
  "sha256_hex scripted x = ''sha256:'' @ x"
  by (simp_all add: scripted_def)

lemma always_redirect_sel:
  "http_Do always_redirect srv req = (envelope (redirect_to ''de''), srv)"
  "url_Parse always_redirect u"
  "http_NewRequest always_redirect m u"
  by (simp_all add: always_redirect_def)

lemma unmarshal_envelope:
  "json_Unmarshal (Some (JObj [(''status'', JNum (IntLit 0)), (''data'', d)])) dec_LibreLinkResp =
     Ok (zero_LibreLinkResp\<lparr>Data := Some d\<rparr>)"
  by (simp add: json_Unmarshal_def dec_defs dec_LibreLinkResp_def LibreLinkResp_member_def
      zero_LibreLinkResp_def)

lemma unmarshal_rejection:
  "json_Unmarshal (Some (JObj [(''status'', JNum (IntLit st)),
        (''error'', JObj [(''message'', JStr msg)])])) dec_LibreLinkResp =
     (if in_int64 st
      then Ok (zero_LibreLinkResp\<lparr>Status := st, Error := Some \<lparr>Message = msg\<rparr>\<rparr>)
      else Err JsonError)"
  by (simp add: json_Unmarshal_def unmarshal_def dec_struct_def dec_set_def dec_string_def
      dec_int_def dec_LibreLinkResp_def LibreLinkResp_member_def dec_LibreLinkError_ptr_def
      LibreLinkError_member_def zero_LibreLinkResp_def)

lemma unmarshal_status_only:
  "json_Unmarshal (Some (JObj [(''status'', JNum (IntLit 2))])) dec_LibreLinkResp =
     Ok (zero_LibreLinkResp\<lparr>Status := 2\<rparr>)"
  by (simp add: json_Unmarshal_def dec_defs dec_LibreLinkResp_def LibreLinkResp_member_def
      zero_LibreLinkResp_def)

lemma payload_redirect:
  "Data r = Some (redirect_to reg) \<Longrightarrow>
     getPayload r dec_RedirecResponse = Ok \<lparr>Redirect = True, Region = reg\<rparr>"
  by (simp add: getPayload_def json_Unmarshal_def dec_defs dec_RedirecResponse_def
      RedirecResponse_member_def zero_RedirecResponse_def redirect_to_def)

lemma payload_no_redirect:
  "Data r = Some (JArr xs) \<Longrightarrow> getPayload r dec_RedirecResponse = Err JsonError"
  by (simp add: getPayload_def json_Unmarshal_def dec_defs dec_RedirecResponse_def)

lemma envelope_of_scripted:
  "envelope_of scripted (envelope d # rest) c meth endpoint body =
     (Ok (zero_LibreLinkResp\<lparr>Data := Some d\<rparr>), rest)"
  by (simp add: envelope_of_def prepareRequest_def scripted_sel envelope_def unmarshal_envelope)

lemma envelope_of_scripted_response:
  "envelope_of scripted (Response 200 raw # rest) c meth endpoint body =
     (case json_Unmarshal raw dec_LibreLinkResp of
        Err e \<Rightarrow> (Err (Wrap ''failed to decode response body'' e), rest)
      | Panic \<Rightarrow> (Panic, rest)
      | Ok libreResp \<Rightarrow> (Ok libreResp, rest))"
  by (simp add: envelope_of_def prepareRequest_def scripted_sel)

lemma envelope_of_scripted_failure:
  "envelope_of scripted [] c meth endpoint body =
     (Err (Wrap ''request failed'' TransportError), [])"
  "code \<noteq> 200 \<Longrightarrow>
     envelope_of scripted (Response code raw # rest) c meth endpoint body =
       (Err (UnexpectedStatusCode code), rest)"
  by (simp_all add: envelope_of_def prepareRequest_def scripted_sel)

subsection \<open>The request operation\<close>

text \<open>\<^verbatim>\<open>doRequest\<close> in terms of the envelope it received.\<close>

lemma doRequest_envelope:
  "doRequest E srv c meth endpoint body =
     (case envelope_of E srv c meth endpoint body of
        (Err e, srv') \<Rightarrow> Some (Err e, srv', c)
      | (Panic, srv') \<Rightarrow> Some (Panic, srv', c)
      | (Ok libreResp, srv') \<Rightarrow>
          if Status libreResp \<noteq> 0 then
            (case Error libreResp of
               None \<Rightarrow> Some (Panic, srv', c)
             | Some er \<Rightarrow> Some (Err (ApiError (Status libreResp) (Message er)), srv', c))
          else
            (case handleRedirect E c libreResp of
               (Err e, c') \<Rightarrow> Some (Err (Wrap ''failed to handle redirect'' e), srv', c')
             | (Panic, c') \<Rightarrow> Some (Panic, srv', c')
             | (Ok redirected, c') \<Rightarrow>
                 if redirected then doRequest E srv' c' meth endpoint (consumed body)
                 else Some (Ok libreResp, srv', c')))"
  by (subst doRequest.simps)
     (auto simp: envelope_of_def split: result.split prod.split http_result.split)

lemma doRequest_failed:
  "envelope_of E srv c meth endpoint body = (Err e, srv') \<Longrightarrow>
     doRequest E srv c meth endpoint body = Some (Err e, srv', c)"
  by (subst doRequest_envelope) simp

lemma doRequest_plain:
  assumes "envelope_of E srv c meth endpoint body = (Ok resp, srv')"
    and "Status resp = 0"
    and "handleRedirect E c resp = (Ok False, c)"
  shows "doRequest E srv c meth endpoint body = Some (Ok resp, srv', c)"
  using assms by (subst doRequest_envelope) simp

lemma doRequest_rejected:
  assumes "envelope_of E srv c meth endpoint body = (Ok resp, srv')"
    and "Status resp \<noteq> 0"
  shows "doRequest E srv c meth endpoint body =
           (case Error resp of
              None \<Rightarrow> Some (Panic, srv', c)
            | Some er \<Rightarrow> Some (Err (ApiError (Status resp) (Message er)), srv', c))"
  using assms by (subst doRequest_envelope) simp

lemma handleRedirect_redirect:
  "getPayload resp dec_RedirecResponse = Ok redirect \<Longrightarrow> Redirect redirect \<Longrightarrow>
   Region redirect \<noteq> [] \<Longrightarrow> url_Parse E (getUrl (Region redirect)) \<Longrightarrow>
   handleRedirect E c resp = (Ok True, c\<lparr>baseUrl := getUrl (Region redirect)\<rparr>)"
  by (simp add: handleRedirect_def)

lemma handleRedirect_array:
  "Data r = Some (JArr xs) \<Longrightarrow> handleRedirect E c r = (Ok False, c)"
  by (simp add: handleRedirect_def payload_no_redirect)

lemma handleRedirect_creds:
  "handleRedirect E c resp = (r, c') \<Longrightarrow>
     creds c' = creds c \<and> user c' = user c \<and> password c' = password c"
  by (auto simp: handleRedirect_def split: result.splits if_splits)

text \<open>Whatever a request does, it changes at most the base URL of the client.\<close>

lemma doRequest_creds:
  "doRequest E srv c meth endpoint body = Some y \<Longrightarrow>
     creds (snd (snd y)) = creds c \<and> user (snd (snd y)) = user c \<and>
     password (snd (snd y)) = password c"
  by (rule doRequest.raw_induct [where P = "\<lambda>E srv c meth endpoint body y.
        creds (snd (snd y)) = creds c \<and> user (snd (snd y)) = user c \<and>
        password (snd (snd y)) = password c"])
     (auto split: result.splits prod.splits http_result.splits if_splits option.splits
        dest!: handleRedirect_creds)

lemma doRequest_scripted_array:
  "doRequest scripted (envelope (JArr xs) # rest) c meth endpoint body =
     Some (Ok (zero_LibreLinkResp\<lparr>Data := Some (JArr xs)\<rparr>), rest, c)"
  by (rule doRequest_plain [OF envelope_of_scripted])
     (simp_all add: zero_LibreLinkResp_def handleRedirect_array)

text \<open>Against the remote that always redirects, a request does not return.\<close>

lemma always_redirect_never_returns:
  "doRequest E srv c meth endpoint body = Some y \<Longrightarrow> E \<noteq> always_redirect"
proof (rule doRequest.raw_induct
    [where P = "\<lambda>E srv c meth endpoint body y. E \<noteq> always_redirect"])
  fix f :: "unit env \<Rightarrow> unit \<Rightarrow> LibreLinkClient \<Rightarrow> string \<Rightarrow> string \<Rightarrow> json option
     \<Rightarrow> (LibreLinkResp result \<times> unit \<times> LibreLinkClient) option"
  fix E srv c meth endpoint body y
  assume IH: "\<And>E srv c meth endpoint body y.
    f E srv c meth endpoint body = Some y \<Longrightarrow> E \<noteq> always_redirect"
  assume step: "(case prepareRequest E c meth endpoint body of
        Ok req \<Rightarrow>
          (case http_Do E srv req of
             (TransportFailure, srv') \<Rightarrow>
               Some (Err (Wrap ''request failed'' TransportError), srv', c)
           | (Response code raw, srv') \<Rightarrow>
               if code \<noteq> 200 then Some (Err (UnexpectedStatusCode code), srv', c)
               else
                 (case json_Unmarshal raw dec_LibreLinkResp of
                    Ok libreResp \<Rightarrow>
                      if Status libreResp \<noteq> 0 then
                        (case Error libreResp of
                           None \<Rightarrow> Some (Panic, srv', c)
                         | Some er \<Rightarrow>
                             Some (Err (ApiError (Status libreResp) (Message er)), srv', c))
                      else
                        (case handleRedirect E c libreResp of
                           (Ok redirected, c') \<Rightarrow>
                             if redirected then f E srv' c' meth endpoint (consumed body)
                             else Some (Ok libreResp, srv', c')
                         | (Err e, c') \<Rightarrow>
                             Some (Err (Wrap ''failed to handle redirect'' e), srv', c')
                         | (Panic, c') \<Rightarrow> Some (Panic, srv', c'))
                  | Err e \<Rightarrow> Some (Err (Wrap ''failed to decode response body'' e), srv', c)
                  | Panic \<Rightarrow> Some (Panic, srv', c)))
      | Err e \<Rightarrow> Some (Err (Wrap ''failed to prepare request'' e), srv, c)
      | Panic \<Rightarrow> Some (Panic, srv, c)) = Some y"
  show "E \<noteq> always_redirect"
  proof
    assume E: "E = always_redirect"
    have "f always_redirect srv (c\<lparr>baseUrl := getUrl ''de''\<rparr>) meth endpoint (consumed body) =
        Some y"
      using step unfolding E
      by (simp add: prepareRequest_def always_redirect_sel envelope_def unmarshal_envelope
          handleRedirect_def payload_redirect zero_LibreLinkResp_def)
    from IH [OF this] show False by simp
  qed
qed

text \<open>
  C9. When the envelope received for a request has status zero and its payload is a
  redirect marker with an empty region, the request fails with the error "redirect
  requested but no region provided"; the remote has been asked once (its state is the
  one after that exchange), the client is unchanged, and no envelope is returned.
\<close>

theorem doRequest_redirect_without_region:
  assumes "envelope_of E srv c meth endpoint body = (Ok resp, srv')"
    and "Status resp = 0"
    and "getPayload resp dec_RedirecResponse = Ok redirect"
    and "Redirect redirect" and "Region redirect = []"
  shows "doRequest E srv c meth endpoint body =
           Some (Err (Wrap ''failed to handle redirect''
                        (Errorf ''redirect requested but no region provided'')), srv', c)"
  using assms by (subst doRequest_envelope) (simp add: handleRedirect_def)

theorem doRequest_redirect_without_region_witness:
  "envelope_of scripted [envelope (redirect_to []), envelope (JArr [])] client0
       ''GET'' ''llu/connections'' None =
     (Ok (zero_LibreLinkResp\<lparr>Data := Some (redirect_to [])\<rparr>), [envelope (JArr [])]) \<and>
   getPayload (zero_LibreLinkResp\<lparr>Data := Some (redirect_to [])\<rparr>) dec_RedirecResponse =
     Ok \<lparr>Redirect = True, Region = []\<rparr> \<and>
   doRequest scripted [envelope (redirect_to []), envelope (JArr [])] client0
       ''GET'' ''llu/connections'' None =
     Some (Err (Wrap ''failed to handle redirect''
                  (Errorf ''redirect requested but no region provided'')),
           [envelope (JArr [])], client0)"
proof -
  let ?resp = "zero_LibreLinkResp\<lparr>Data := Some (redirect_to [])\<rparr>"
  have a: "envelope_of scripted [envelope (redirect_to []), envelope (JArr [])] client0
       ''GET'' ''llu/connections'' None = (Ok ?resp, [envelope (JArr [])])"
    by (rule envelope_of_scripted)
  have b: "Status ?resp = 0" by (simp add: zero_LibreLinkResp_def)
  have c: "getPayload ?resp dec_RedirecResponse = Ok \<lparr>Redirect = True, Region = []\<rparr>"
    by (simp add: payload_redirect)
  have d: "Redirect \<lparr>Redirect = True, Region = []\<rparr>" by simp
  have e: "Region \<lparr>Redirect = True, Region = []\<rparr> = []" by simp
  from doRequest_redirect_without_region [OF a b c d e] a c show ?thesis by simp
qed

text \<open>
  C2 (as stated, refuted). Redirects are followed without a cap. Against a remote that
  answers every request with a redirect to \<^verbatim>\<open>de\<close>, the request for the connections does
  not return; and after two redirects in a row (to \<^verbatim>\<open>de\<close>, then to \<^verbatim>\<open>fr\<close>) the request
  is sent a third time, so that all three answers of the script are used and the base
  URL is the one of the second redirect.
\<close>

theorem doRequest_redirect_cap_counterexample:
  "doRequest always_redirect () client0 ''GET'' ''llu/connections'' None = None \<and>
   doRequest scripted
       [envelope (redirect_to ''de''), envelope (redirect_to ''fr''), envelope (JArr [])]
       client0 ''GET'' ''llu/connections'' None =
     Some (Ok (zero_LibreLinkResp\<lparr>Data := Some (JArr [])\<rparr>), [],
           client0\<lparr>baseUrl := ''https://api-fr.libreview.io''\<rparr>)"
proof
  show "doRequest always_redirect () client0 ''GET'' ''llu/connections'' None = None"
    using always_redirect_never_returns
            [of always_redirect "()" client0 "''GET''" "''llu/connections''" None]
    by (cases "doRequest always_redirect () client0 ''GET'' ''llu/connections'' None") auto
next
  show "doRequest scripted
       [envelope (redirect_to ''de''), envelope (redirect_to ''fr''), envelope (JArr [])]
       client0 ''GET'' ''llu/connections'' None =
     Some (Ok (zero_LibreLinkResp\<lparr>Data := Some (JArr [])\<rparr>), [],
           client0\<lparr>baseUrl := ''https://api-fr.libreview.io''\<rparr>)"
    apply (subst doRequest_envelope)
    apply (simp add: envelope_of_scripted handleRedirect_def payload_redirect
        zero_LibreLinkResp_def scripted_sel)
    apply (subst doRequest_envelope)
    apply (simp add: envelope_of_scripted handleRedirect_def payload_redirect
        zero_LibreLinkResp_def scripted_sel)
    apply (simp add: doRequest_scripted_array getUrl_def zero_LibreLinkResp_def)
    done
qed

text \<open>
  C2 (amended). When the envelope received for a request has status zero and its payload
  is a redirect marker with a nonempty region whose URL parses, the client sets its base
  URL to the URL of that region and the result of the request is the result of sending
  it again, with the same method and endpoint and with what the first send left of the
  body, to the remote as the first exchange left it. This holds for every redirect
  answer in turn: nothing counts or caps the redirects.
\<close>

theorem doRequest_follows_redirect:
  assumes "envelope_of E srv c meth endpoint body = (Ok resp, srv')"
    and "Status resp = 0"
    and "getPayload resp dec_RedirecResponse = Ok redirect"
    and "Redirect redirect" and "Region redirect \<noteq> []"
    and "url_Parse E (getUrl (Region redirect))"
  shows "doRequest E srv c meth endpoint body =
           doRequest E srv' (c\<lparr>baseUrl := getUrl (Region redirect)\<rparr>) meth endpoint
             (consumed body)"
  using assms by (subst doRequest_envelope) (simp add: handleRedirect_redirect)

theorem doRequest_follows_redirect_witness:
  "envelope_of scripted [envelope (redirect_to ''de''), envelope (JArr [])] client0
       ''GET'' ''llu/connections'' None =
     (Ok (zero_LibreLinkResp\<lparr>Data := Some (redirect_to ''de'')\<rparr>), [envelope (JArr [])]) \<and>
   Status (zero_LibreLinkResp\<lparr>Data := Some (redirect_to ''de'')\<rparr>) = 0 \<and>
   getPayload (zero_LibreLinkResp\<lparr>Data := Some (redirect_to ''de'')\<rparr>) dec_RedirecResponse =
     Ok \<lparr>Redirect = True, Region = ''de''\<rparr> \<and>
   url_Parse scripted (getUrl ''de'') \<and>
   doRequest scripted [envelope (redirect_to ''de''), envelope (JArr [])] client0
       ''GET'' ''llu/connections'' None =
     Some (Ok (zero_LibreLinkResp\<lparr>Data := Some (JArr [])\<rparr>), [],
           client0\<lparr>baseUrl := ''https://api-de.libreview.io''\<rparr>)"
proof -
  let ?resp = "zero_LibreLinkResp\<lparr>Data := Some (redirect_to ''de'')\<rparr>"
  have a: "envelope_of scripted [envelope (redirect_to ''de''), envelope (JArr [])] client0
       ''GET'' ''llu/connections'' None = (Ok ?resp, [envelope (JArr [])])"
    by (rule envelope_of_scripted)
  have b: "Status ?resp = 0" by (simp add: zero_LibreLinkResp_def)
  have c: "getPayload ?resp dec_RedirecResponse = Ok \<lparr>Redirect = True, Region = ''de''\<rparr>"
    by (simp add: payload_redirect)
  have d: "Redirect \<lparr>Redirect = True, Region = ''de''\<rparr>" by simp
  have e: "Region \<lparr>Redirect = True, Region = ''de''\<rparr> \<noteq> []" by simp
  have f: "url_Parse scripted (getUrl (Region \<lparr>Redirect = True, Region = ''de''\<rparr>))"
    by (simp add: scripted_sel)
  from doRequest_follows_redirect [OF a b c d e f] a b c f
  show ?thesis by (simp add: doRequest_scripted_array getUrl_def scripted_sel)
qed

text \<open>
  C3 (the code at the failing input). An envelope with status 2 and an error message
  makes the request fail with that status and message, without a further request. An
  envelope with status 2 and no \<^verbatim>\<open>error\<close> member makes the request panic: the message is
  read through a nil pointer.
\<close>

theorem doRequest_status_without_error_panics:
  "doRequest scripted [rejection 2 ''notAuthenticated'', envelope (JArr [])] client0
       ''GET'' ''llu/connections'' None =
     Some (Err (ApiError 2 ''notAuthenticated''), [envelope (JArr [])], client0) \<and>
   doRequest scripted
       [Response 200 (Some (JObj [(''status'', JNum (IntLit 2))])), envelope (JArr [])]
       client0 ''GET'' ''llu/connections'' None =
     Some (Panic, [envelope (JArr [])], client0)"
  by (simp add: doRequest_rejected envelope_of_scripted_response rejection_def
      unmarshal_rejection unmarshal_status_only in_int64_def zero_LibreLinkResp_def)


subsection \<open>Authentication and the stored credentials\<close>

text \<open>
  C10. When \<^verbatim>\<open>Authenticate\<close> returns anything but success (an error, whatever its cause),
  the credentials of the client are the ones it held before the call, and
  \<^verbatim>\<open>IsAuthenticated\<close> answers as before: the credentials are replaced only by a call
  that succeeds.
\<close>

theorem Authenticate_error_keeps_creds:
  assumes "Authenticate E srv c = Some (r, srv', c')" and "r \<noteq> Ok ()"
  shows "creds c' = creds c \<and> IsAuthenticated c' = IsAuthenticated c"
proof -
  from assms obtain r' srv1 where
    d: "doRequest E srv c ''POST'' ''llu/auth/login''
          (Some (marshal_AuthRequest (user c) (password c))) = Some (r', srv1, c')"
    by (auto simp: Authenticate_def split: option.splits result.splits prod.splits)
  from doRequest_creds [OF d] show ?thesis by (simp add: IsAuthenticated_def)
qed

theorem Authenticate_error_keeps_creds_witness:
  "Authenticate scripted [rejection 2 ''notAuthenticated''] client1 =
     Some (Err (ApiError 2 ''notAuthenticated''), [], client1) \<and>
   IsAuthenticated client1 \<and>
   Authenticate scripted [] client0 =
     Some (Err (Wrap ''request failed'' TransportError), [], client0) \<and>
   Authenticate scripted [envelope (JArr [])] client0 =
     Some (Err (Wrap ''failed to decode response body'' JsonError), [], client0) \<and>
   \<not> IsAuthenticated client0"
proof -
  have a: "Authenticate scripted [rejection 2 ''notAuthenticated''] client1 =
     Some (Err (ApiError 2 ''notAuthenticated''), [], client1)"
    by (simp add: Authenticate_def doRequest_rejected envelope_of_scripted_response
        rejection_def unmarshal_rejection in_int64_def zero_LibreLinkResp_def)
  have b: "Authenticate scripted [] client0 =
     Some (Err (Wrap ''request failed'' TransportError), [], client0)"
    by (simp add: Authenticate_def doRequest_failed envelope_of_scripted_failure)
  have c: "Authenticate scripted [envelope (JArr [])] client0 =
     Some (Err (Wrap ''failed to decode response body'' JsonError), [], client0)"
    by (simp add: Authenticate_def doRequest_scripted_array zero_LibreLinkResp_def
        json_Unmarshal_def dec_defs dec_AuthResponse_def)
  have d: "IsAuthenticated client1"
    by (simp add: IsAuthenticated_def client1_def NewLibreLinkClient_def WithCredentials_def
        WithExpiringCredentials_def)
  have e: "\<not> IsAuthenticated client0"
    by (simp add: IsAuthenticated_def client0_def NewLibreLinkClient_def)
  from Authenticate_error_keeps_creds [OF a] Authenticate_error_keeps_creds [OF b]
    Authenticate_error_keeps_creds [OF c] a b c d e
  show ?thesis by simp
qed

subsection \<open>Reading the graph data of a connection\<close>

text \<open>A payload that is an object without the members of a redirect marker is no redirect.\<close>

lemma payload_redirect_object:
  assumes "Data r = Some (JObj ms)"
    and "''redirect'' \<notin> fst ` set ms" and "''region'' \<notin> fst ` set ms"
  shows "getPayload r dec_RedirecResponse = Ok zero_RedirecResponse"
proof -
  have "dec_members RedirecResponse_member ms a = Done a False"
    if "''redirect'' \<notin> fst ` set ms" "''region'' \<notin> fst ` set ms" for a
    using that by (induction ms) (auto simp: RedirecResponse_member_def)
  with assms show ?thesis
    by (simp add: getPayload_def json_Unmarshal_def unmarshal_def dec_struct_def
        dec_RedirecResponse_def)
qed

lemma handleRedirect_graph:
  "Data r = Some (graph_doc pid cur hist) \<Longrightarrow> handleRedirect E c r = (Ok False, c)"
  by (simp add: handleRedirect_def graph_doc_def payload_redirect_object
      zero_RedirecResponse_def)

lemma handleRedirect_login:
  "Data r = Some login_data \<Longrightarrow> handleRedirect E c r = (Ok False, c)"
  by (simp add: handleRedirect_def login_data_def payload_redirect_object
      zero_RedirecResponse_def)

lemma doRequest_scripted_graph:
  "doRequest scripted (envelope (graph_doc pid cur hist) # rest) c meth endpoint body =
     Some (Ok (zero_LibreLinkResp\<lparr>Data := Some (graph_doc pid cur hist)\<rparr>), rest, c)"
  by (rule doRequest_plain [OF envelope_of_scripted])
     (simp_all add: zero_LibreLinkResp_def handleRedirect_graph)

lemma payload_graph_without_reading:
  "Data r = Some (graph_doc pid None []) \<Longrightarrow>
     getPayload r dec_GraphData =
       Ok (zero_GraphData\<lparr>Connection := zero_Connection\<lparr>PatientId := pid\<rparr>\<rparr>)"
  by (simp add: getPayload_def json_Unmarshal_def dec_defs dec_GraphData_def
      GraphData_member_def Connection_member_def graph_doc_def zero_GraphData_def
      zero_Connection_def)

text \<open>
  C5 (the code at the failing input). The graph payload of the connection holds no
  current reading; \<^verbatim>\<open>GetLatestReading\<close> fetches and decodes it without an error and then
  panics on the nil pointer instead of returning an error.
\<close>

theorem GetLatestReading_without_reading_panics:
  "GetLatestReading scripted [envelope (graph_doc ''p-1'' None [])] client1 ''p-1'' =
     Some (Panic, [], client1)"
  by (simp add: GetLatestReading_def getGraphData_def doRequest_scripted_graph
      payload_graph_without_reading zero_LibreLinkResp_def zero_GraphData_def
      zero_Connection_def)


subsection \<open>The collector\<close>

lemma send_Ok:
  "length ls = length (variableLabels d) \<Longrightarrow>
     send ch t (MustNewConstMetric d v ls) =
       (Ok (), ch @ [\<lparr>m_timestamp = t, m_desc = d, m_value = v, m_labelValues = ls\<rparr>])"
  by (simp add: send_def MustNewConstMetric_def NewMetricWithTimestamp_def)

lemma send_not_Err: "send ch t r = (a, ch') \<Longrightarrow> a \<noteq> Err e"
  by (auto simp: send_def split: result.splits)

lemma send_historic_Ok:
  "length (variableLabels (historicDataDesc gc)) = 2 \<Longrightarrow>
     send_historic gc x pn hs ch =
       (Ok (), ch @ map (\<lambda>h. \<lparr>m_timestamp = Timestamp h, m_desc = historicDataDesc gc,
                               m_value = Value h, m_labelValues = [PatientId x, pn]\<rparr>) hs)"
  by (induction hs arbitrary: ch) (simp_all add: send_Ok)

lemma send_historic_not_Err: "send_historic gc x pn hs ch = (a, ch') \<Longrightarrow> a \<noteq> Err e"
proof (induction hs arbitrary: ch)
  case Nil
  then show ?case by auto
next
  case (Cons h hs)
  obtain b ch1 where s: "send ch (Timestamp h)
      (MustNewConstMetric (historicDataDesc gc) (Value h) [PatientId x, pn]) = (b, ch1)"
    by (cases "send ch (Timestamp h)
      (MustNewConstMetric (historicDataDesc gc) (Value h) [PatientId x, pn])") auto
  show ?case
  proof (cases b)
    case (Ok u)
    with Cons.prems s have "send_historic gc x pn hs ch1 = (a, ch')" by simp
    then show ?thesis by (rule Cons.IH)
  next
    case (Err e')
    with s send_not_Err [OF s, of e'] show ?thesis by simp
  next
    case Panic
    with Cons.prems s show ?thesis by auto
  qed
qed

lemma collectGlucose_fetch_failed:
  "GetGraphData E srv c (PatientId x) = Some (Err e, srv', c') \<Longrightarrow>
     collectGlucose E gc x ch srv c = Some (Ok (), ch, srv', c')"
  by (simp add: collectGlucose_def)

lemma collectGlucose_reading:
  assumes "GetGraphData E srv c (PatientId x) = Some (Ok data, srv', c')"
    and "GlucoseMeasurement (Connection data) = Some reading"
    and "two_labels gc"
  shows "collectGlucose E gc x ch srv c =
           Some (Ok (), ch @ observations gc x reading (GraphData data), srv', c')"
  using assms
  by (simp add: collectGlucose_def two_labels_def send_Ok send_historic_Ok observations_def
      observation_def Let_def)

lemma collectGlucose_not_Err:
  "collectGlucose E gc x ch srv c \<noteq> Some (Err e, ch', srv', c')"
  by (auto simp: collectGlucose_def Let_def split: option.splits result.splits prod.splits
      dest: send_not_Err send_historic_not_Err)

lemma collect_loop_not_Err:
  "collect_loop E gc xs ch srv c \<noteq> Some (Err e, ch', srv', c')"
  by (induction xs arbitrary: ch srv c)
     (auto simp: collectGlucose_not_Err split: option.splits result.splits prod.splits)

lemma collect_loop_append:
  "collect_loop E gc (xs @ ys) ch srv c =
     (case collect_loop E gc xs ch srv c of
        Some (Ok u, ch', srv', c') \<Rightarrow> collect_loop E gc ys ch' srv' c'
      | r \<Rightarrow> r)"
  by (induction xs arbitrary: ch srv c) (auto split: option.splits result.splits prod.splits)

lemma Collect_session:
  "Collect E gc srv c =
     (case ensure_session E srv c of
        None \<Rightarrow> None
      | Some (Err e, srv1, c1) \<Rightarrow> Some (Ok (), [], srv1, c1)
      | Some (Panic, srv1, c1) \<Rightarrow> Some (Panic, [], srv1, c1)
      | Some (Ok u, srv1, c1) \<Rightarrow>
          (case GetConnections E srv1 c1 of
             None \<Rightarrow> None
           | Some (Err e, srv2, c2) \<Rightarrow> Some (Ok (), [], srv2, c2)
           | Some (Panic, srv2, c2) \<Rightarrow> Some (Panic, [], srv2, c2)
           | Some (Ok conn, srv2, c2) \<Rightarrow> collect_loop E gc conn [] srv2 c2))"
  by (simp add: Collect_def ensure_session_def)


subsection \<open>The example scrape, evaluated\<close>

lemmas parse_defs = parseDate_def time_Parse_DateFormat_def getnum_def isDigit_def digit_def
  atoi_def digits_def parse_fraction_def check_def cutspace_def daysIn_def isLeap_def
  commaOrPeriod_def parseNanoseconds_def

lemma parseDate_examples:
  "parseDate ''9/7/2025 6:01:03 PM'' = Ok (Date 2025 9 7 18 1 3 0)"
  "parseDate ''9/7/2025 5:46:03 PM'' = Ok (Date 2025 9 7 17 46 3 0)"
  "parseDate ''9/7/2025 5:51:03 PM'' = Ok (Date 2025 9 7 17 51 3 0)"
  "parseDate ''9/7/2025 5:56:03 PM'' = Ok (Date 2025 9 7 17 56 3 0)"
  by (simp_all add: parse_defs)

lemma unmarshal_reading:
  assumes "parseDate t = Ok ts" and "in_float64 v" and "in_int64 arrow"
  shows "GlucoseMeasurement_UnmarshalJSON (reading_doc t v arrow) zero_GlucoseMeasurement =
           Done (reading_val ts v arrow) False"
  using assms
  by (simp add: GlucoseMeasurement_UnmarshalJSON_def reading_doc_def unmarshal_def
      dec_struct_def dec_set_def dec_string_def dec_bool_def dec_int_def dec_float64_def
      GlucoseMeasurement_aux_member_def reading_val_def zero_GlucoseMeasurement_def)

lemma unmarshal_connection:
  "dec_struct Connection_member (connection_doc pid f l) zero_Connection =
     Done (connection_val pid f l) False"
  by (simp add: connection_doc_def connection_val_def dec_struct_def dec_set_def dec_string_def
      Connection_member_def zero_Connection_def)

lemma GetConnections_scripted_one:
  "GetConnections scripted (envelope (JArr [connection_doc pid f l]) # rest) c =
     Some (Ok [connection_val pid f l], rest, c)"
  by (simp add: GetConnections_def doRequest_scripted_array zero_LibreLinkResp_def getPayload_def
      json_Unmarshal_def dec_Connections_def dec_slice_def unmarshal_connection unmarshal_def)

lemma GetConnections_scripted_two:
  "GetConnections scripted
       (envelope (JArr [connection_doc pid f l, connection_doc pid' f' l']) # rest) c =
     Some (Ok [connection_val pid f l, connection_val pid' f' l'], rest, c)"
  by (simp add: GetConnections_def doRequest_scripted_array zero_LibreLinkResp_def getPayload_def
      json_Unmarshal_def dec_Connections_def dec_slice_def unmarshal_connection unmarshal_def)

lemma Authenticate_scripted_login:
  "Authenticate scripted (envelope login_data # rest) client0 =
     Some (Ok (), rest, client_logged_in)"
proof -
  have d: "doRequest scripted (envelope login_data # rest) client0 meth endpoint body =
     Some (Ok (zero_LibreLinkResp\<lparr>Data := Some login_data\<rparr>), rest, client0)"
    for meth endpoint body
    by (rule doRequest_plain [OF envelope_of_scripted])
       (simp_all add: zero_LibreLinkResp_def handleRedirect_login)
  have u: "json_Unmarshal (Some login_data) dec_AuthResponse =
     Ok \<lparr>User = zero_User\<lparr>ID := ''u-1'', User.FirstName := ''Ada''\<rparr>,
         AuthTicket = \<lparr>Token = ''tok'', Expires = Unix 1773417313,
                        Duration = 15552000000000000\<rparr>\<rparr>"
    by (simp add: json_Unmarshal_def login_data_def dec_AuthResponse_def dec_defs
        AuthResponse_member_def User_member_def AuthTicket_UnmarshalJSON_def
        AuthTicket_aux_member_def zero_AuthResponse_def zero_User_def zero_AuthTicket_def
        wrap64_def)
  show ?thesis
    by (simp add: Authenticate_def d u zero_LibreLinkResp_def client_logged_in_def
        NewLibreLinkCreds_def scripted_sel)
qed

lemma unmarshal_reading_ptr:
  assumes "parseDate t = Ok ts" and "in_float64 v" and "in_int64 arrow"
  shows "dec_GlucoseMeasurement_ptr (reading_doc t v arrow) None =
           Done (Some (reading_val ts v arrow)) False"
proof -
  have "reading_doc t v arrow \<noteq> JNull" by (simp add: reading_doc_def)
  then show ?thesis
    using unmarshal_reading [OF assms]
    by (cases "reading_doc t v arrow") (simp_all add: dec_GlucoseMeasurement_ptr_def dec_set_def)
qed

lemma payload_graph:
  assumes "Data r = Some (graph_doc pid (Some (reading_doc t v a)) hist)"
    and "parseDate t = Ok ts" and "in_float64 v" and "in_int64 a"
    and "dec_elems (\<lambda>e. GlucoseMeasurement_UnmarshalJSON e zero_GlucoseMeasurement) hist =
           Done hs False"
  shows "getPayload r dec_GraphData =
       Ok \<lparr>Connection = zero_Connection\<lparr>PatientId := pid,
                            GlucoseMeasurement := Some (reading_val ts v a)\<rparr>,
           GraphData = hs\<rparr>"
  using assms
  by (simp add: getPayload_def json_Unmarshal_def graph_doc_def dec_GraphData_def
      GraphData_member_def Connection_member_def unmarshal_reading_ptr
      unmarshal_def dec_struct_def dec_set_def dec_string_def dec_slice_def zero_GraphData_def
      zero_Connection_def)

lemma payload_graph_no_current:
  assumes "Data r = Some (graph_doc pid None hist)"
    and "dec_elems (\<lambda>e. GlucoseMeasurement_UnmarshalJSON e zero_GlucoseMeasurement) hist =
           Done hs False"
  shows "getPayload r dec_GraphData =
       Ok \<lparr>Connection = zero_Connection\<lparr>PatientId := pid\<rparr>, GraphData = hs\<rparr>"
  using assms
  by (simp add: getPayload_def json_Unmarshal_def graph_doc_def dec_GraphData_def
      GraphData_member_def Connection_member_def
      unmarshal_def dec_struct_def dec_set_def dec_string_def dec_slice_def zero_GraphData_def
      zero_Connection_def)

lemma GetGraphData_scripted:
  assumes "getPayload (zero_LibreLinkResp\<lparr>Data := Some (graph_doc pid cur hist)\<rparr>) dec_GraphData
            = Ok data"
  shows "GetGraphData scripted (envelope (graph_doc pid cur hist) # rest) c connectionId =
           Some (Ok data, rest, c)"
  using assms by (simp add: GetGraphData_def getGraphData_def doRequest_scripted_graph)

lemma GetGraphData_scripted_failed:
  "GetGraphData scripted (Response 500 None # rest) c connectionId =
     Some (Err (UnexpectedStatusCode 500), rest, c)"
  by (simp add: GetGraphData_def getGraphData_def doRequest_failed envelope_of_scripted_failure)


lemma two_labels_New: "two_labels NewGlucoseCollector"
  by (simp add: two_labels_def NewGlucoseCollector_def)

lemma historic2:
  "dec_elems (\<lambda>e. GlucoseMeasurement_UnmarshalJSON e zero_GlucoseMeasurement)
     [reading_doc ''9/7/2025 5:46:03 PM'' 5 0, reading_doc ''9/7/2025 5:51:03 PM'' (51 / 10) 0] =
   Done [reading_val (Date 2025 9 7 17 46 3 0) 5 0,
         reading_val (Date 2025 9 7 17 51 3 0) (51 / 10) 0] False"
  by (simp add: unmarshal_reading parseDate_examples in_float64_def in_int64_def)

lemma historic3:
  "dec_elems (\<lambda>e. GlucoseMeasurement_UnmarshalJSON e zero_GlucoseMeasurement)
     [reading_doc ''9/7/2025 5:46:03 PM'' 5 0, reading_doc ''9/7/2025 5:51:03 PM'' (51 / 10) 0,
      reading_doc ''9/7/2025 5:56:03 PM'' (26 / 5) 0] =
   Done [reading_val (Date 2025 9 7 17 46 3 0) 5 0,
         reading_val (Date 2025 9 7 17 51 3 0) (51 / 10) 0,
         reading_val (Date 2025 9 7 17 56 3 0) (26 / 5) 0] False"
  by (simp add: unmarshal_reading parseDate_examples in_float64_def in_int64_def)

text \<open>
  C1 (amended). When the graph data fetched for a connection holds no current reading,
  the collector sends nothing at all for that connection, whatever the number of its
  historic entries: the channel is as before, and the scrape goes on with the state the
  fetch left.
\<close>

theorem collectGlucose_without_reading:
  assumes "GetGraphData E srv c (PatientId x) = Some (Ok data, srv', c')"
    and "GlucoseMeasurement (Connection data) = None"
  shows "collectGlucose E gc x ch srv c = Some (Ok (), ch, srv', c')"
  using assms by (simp add: collectGlucose_def)

text \<open>
  C1 (as stated, refuted). The graph payload of the only connection decodes to no
  current reading and two historic entries; the scrape sends no observation, not two.
\<close>

theorem collectGlucose_historic_only_counterexample:
  "GetGraphData scripted
       [envelope (graph_doc ''p-1'' None
          [reading_doc ''9/7/2025 5:46:03 PM'' 5 0, reading_doc ''9/7/2025 5:51:03 PM'' (51 / 10) 0])]
       client1 ''p-1'' =
     Some (Ok \<lparr>Connection = zero_Connection\<lparr>PatientId := ''p-1''\<rparr>,
               GraphData = [reading_val (Date 2025 9 7 17 46 3 0) 5 0,
                            reading_val (Date 2025 9 7 17 51 3 0) (51 / 10) 0]\<rparr>,
           [], client1) \<and>
   Collect scripted NewGlucoseCollector
       [envelope (JArr [connection_doc ''p-1'' ''Ada'' ''Lovelace'']),
        envelope (graph_doc ''p-1'' None
          [reading_doc ''9/7/2025 5:46:03 PM'' 5 0, reading_doc ''9/7/2025 5:51:03 PM'' (51 / 10) 0])]
       client1 =
     Some (Ok (), [], [], client1)"
proof -
  let ?g = "graph_doc ''p-1'' None
          [reading_doc ''9/7/2025 5:46:03 PM'' 5 0, reading_doc ''9/7/2025 5:51:03 PM'' (51 / 10) 0]"
  let ?data = "\<lparr>Connection = zero_Connection\<lparr>PatientId := ''p-1''\<rparr>,
               GraphData = [reading_val (Date 2025 9 7 17 46 3 0) 5 0,
                            reading_val (Date 2025 9 7 17 51 3 0) (51 / 10) 0]\<rparr>"
  have p: "getPayload (zero_LibreLinkResp\<lparr>Data := Some ?g\<rparr>) dec_GraphData = Ok ?data"
    by (rule payload_graph_no_current [OF _ historic2]) simp
  have g: "GetGraphData scripted [envelope ?g] c pid = Some (Ok ?data, [], c)" for c pid
    by (rule GetGraphData_scripted [OF p])
  have a: "IsAuthenticated client1"
    by (simp add: IsAuthenticated_def client1_def NewLibreLinkClient_def WithCredentials_def
        WithExpiringCredentials_def)
  have "Collect scripted NewGlucoseCollector
       [envelope (JArr [connection_doc ''p-1'' ''Ada'' ''Lovelace'']), envelope ?g] client1 =
     Some (Ok (), [], [], client1)"
    by (simp add: Collect_def a GetConnections_scripted_one collectGlucose_def g
        zero_Connection_def)
  with g show ?thesis by simp
qed

text \<open>The amended C1 at the example above.\<close>

theorem collectGlucose_without_reading_witness:
  "GetGraphData scripted
       [envelope (graph_doc ''p-1'' None
          [reading_doc ''9/7/2025 5:46:03 PM'' 5 0, reading_doc ''9/7/2025 5:51:03 PM'' (51 / 10) 0])]
       client1 (PatientId (connection_val ''p-1'' ''Ada'' ''Lovelace'')) =
     Some (Ok \<lparr>Connection = zero_Connection\<lparr>PatientId := ''p-1''\<rparr>,
               GraphData = [reading_val (Date 2025 9 7 17 46 3 0) 5 0,
                            reading_val (Date 2025 9 7 17 51 3 0) (51 / 10) 0]\<rparr>,
           [], client1) \<and>
   collectGlucose scripted NewGlucoseCollector (connection_val ''p-1'' ''Ada'' ''Lovelace'') []
       [envelope (graph_doc ''p-1'' None
          [reading_doc ''9/7/2025 5:46:03 PM'' 5 0, reading_doc ''9/7/2025 5:51:03 PM'' (51 / 10) 0])]
       client1 =
     Some (Ok (), [], [], client1)"
proof -
  let ?g = "graph_doc ''p-1'' None
          [reading_doc ''9/7/2025 5:46:03 PM'' 5 0, reading_doc ''9/7/2025 5:51:03 PM'' (51 / 10) 0]"
  let ?data = "\<lparr>Connection = zero_Connection\<lparr>PatientId := ''p-1''\<rparr>,
               GraphData = [reading_val (Date 2025 9 7 17 46 3 0) 5 0,
                            reading_val (Date 2025 9 7 17 51 3 0) (51 / 10) 0]\<rparr>"
  have p: "getPayload (zero_LibreLinkResp\<lparr>Data := Some ?g\<rparr>) dec_GraphData = Ok ?data"
    by (rule payload_graph_no_current [OF _ historic2]) simp
  have g: "GetGraphData scripted [envelope ?g] client1
      (PatientId (connection_val ''p-1'' ''Ada'' ''Lovelace'')) = Some (Ok ?data, [], client1)"
    by (rule GetGraphData_scripted [OF p])
  have n: "GlucoseMeasurement (Connection ?data) = None" by (simp add: zero_Connection_def)
  from collectGlucose_without_reading [OF g n] g show ?thesis by simp
qed

text \<open>
  C7. A scrape that starts without credentials, logs in, receives one connection and
  graph data with a current reading and three historic entries sends exactly five
  observations, in this order: the glucose level and the trend code with the timestamp
  of the current reading, then one for each historic entry with the timestamp of that
  entry; each is labelled with the patient id and with the first and last name of the
  connection.
\<close>

theorem Collect_one_connection:
  assumes "\<not> IsAuthenticated c"
    and "Authenticate E srv c = Some (Ok (), srv1, c1)"
    and "GetConnections E srv1 c1 = Some (Ok [x], srv2, c2)"
    and "GetGraphData E srv2 c2 (PatientId x) = Some (Ok data, srv3, c3)"
    and "GlucoseMeasurement (Connection data) = Some reading"
    and "GraphData data = [h1, h2, h3]"
  shows "Collect E NewGlucoseCollector srv c =
     Some (Ok (),
       [observation (glucoseLevelDesc NewGlucoseCollector) (Timestamp reading) (Value reading) x,
        observation (trendDesc NewGlucoseCollector) (Timestamp reading)
          (Float64 (of_int (TrendArrow reading))) x,
        observation (historicDataDesc NewGlucoseCollector) (Timestamp h1) (Value h1) x,
        observation (historicDataDesc NewGlucoseCollector) (Timestamp h2) (Value h2) x,
        observation (historicDataDesc NewGlucoseCollector) (Timestamp h3) (Value h3) x],
       srv3, c3)"
  using assms collectGlucose_reading [OF assms(4) assms(5) two_labels_New, of "[]"]
  by (simp add: Collect_def observations_def)

theorem Collect_one_connection_witness:
  "Collect scripted NewGlucoseCollector
     [envelope login_data,
      envelope (JArr [connection_doc ''p-1'' ''Ada'' ''Lovelace'']),
      envelope (graph_doc ''p-1'' (Some (reading_doc ''9/7/2025 6:01:03 PM'' (11 / 2) 3))
        [reading_doc ''9/7/2025 5:46:03 PM'' 5 0, reading_doc ''9/7/2025 5:51:03 PM'' (51 / 10) 0,
         reading_doc ''9/7/2025 5:56:03 PM'' (26 / 5) 0])]
     client0 =
   Some (Ok (),
     [\<lparr>m_timestamp = Date 2025 9 7 18 1 3 0, m_desc = glucoseLevelDesc NewGlucoseCollector,
       m_value = Float64 (11 / 2), m_labelValues = [''p-1'', ''Ada Lovelace'']\<rparr>,
      \<lparr>m_timestamp = Date 2025 9 7 18 1 3 0, m_desc = trendDesc NewGlucoseCollector,
       m_value = Float64 3, m_labelValues = [''p-1'', ''Ada Lovelace'']\<rparr>,
      \<lparr>m_timestamp = Date 2025 9 7 17 46 3 0, m_desc = historicDataDesc NewGlucoseCollector,
       m_value = Float64 5, m_labelValues = [''p-1'', ''Ada Lovelace'']\<rparr>,
      \<lparr>m_timestamp = Date 2025 9 7 17 51 3 0, m_desc = historicDataDesc NewGlucoseCollector,
       m_value = Float64 (51 / 10), m_labelValues = [''p-1'', ''Ada Lovelace'']\<rparr>,
      \<lparr>m_timestamp = Date 2025 9 7 17 56 3 0, m_desc = historicDataDesc NewGlucoseCollector,
       m_value = Float64 (26 / 5), m_labelValues = [''p-1'', ''Ada Lovelace'']\<rparr>],
     [], client_logged_in)"
proof -
  let ?hist = "[reading_doc ''9/7/2025 5:46:03 PM'' 5 0, reading_doc ''9/7/2025 5:51:03 PM'' (51 / 10) 0,
         reading_doc ''9/7/2025 5:56:03 PM'' (26 / 5) 0]"
  let ?g = "graph_doc ''p-1'' (Some (reading_doc ''9/7/2025 6:01:03 PM'' (11 / 2) 3)) ?hist"
  let ?x = "connection_val ''p-1'' ''Ada'' ''Lovelace''"
  let ?r = "reading_val (Date 2025 9 7 18 1 3 0) (11 / 2) 3"
  let ?h1 = "reading_val (Date 2025 9 7 17 46 3 0) 5 0"
  let ?h2 = "reading_val (Date 2025 9 7 17 51 3 0) (51 / 10) 0"
  let ?h3 = "reading_val (Date 2025 9 7 17 56 3 0) (26 / 5) 0"
  let ?data = "\<lparr>Connection = zero_Connection\<lparr>PatientId := ''p-1'', GlucoseMeasurement := Some ?r\<rparr>,
                GraphData = [?h1, ?h2, ?h3]\<rparr>"
  have a: "\<not> IsAuthenticated client0"
    by (simp add: IsAuthenticated_def client0_def NewLibreLinkClient_def)
  have b: "Authenticate scripted
     [envelope login_data, envelope (JArr [connection_doc ''p-1'' ''Ada'' ''Lovelace'']), envelope ?g]
     client0 = Some (Ok (),
       [envelope (JArr [connection_doc ''p-1'' ''Ada'' ''Lovelace'']), envelope ?g], client_logged_in)"
    by (rule Authenticate_scripted_login)
  have c: "GetConnections scripted
     [envelope (JArr [connection_doc ''p-1'' ''Ada'' ''Lovelace'']), envelope ?g] client_logged_in =
     Some (Ok [?x], [envelope ?g], client_logged_in)"
    by (rule GetConnections_scripted_one)
  have p: "getPayload (zero_LibreLinkResp\<lparr>Data := Some ?g\<rparr>) dec_GraphData = Ok ?data"
    by (rule payload_graph [OF _ parseDate_examples(1) _ _ historic3])
       (simp_all add: in_float64_def in_int64_def)
  have d: "GetGraphData scripted [envelope ?g] client_logged_in (PatientId ?x) =
     Some (Ok ?data, [], client_logged_in)"
    by (rule GetGraphData_scripted [OF p])
  have e: "GlucoseMeasurement (Connection ?data) = Some ?r" by (simp add: zero_Connection_def)
  have f: "GraphData ?data = [?h1, ?h2, ?h3]" by simp
  from Collect_one_connection [OF a b c d e f]
  show ?thesis
    by (simp add: observation_def connection_val_def reading_val_def zero_Connection_def
        zero_GlucoseMeasurement_def)
qed


lemma Collect_not_Err: "Collect E gc srv c \<noteq> Some (Err e, ms, srv', c')"
  by (auto simp: Collect_def collect_loop_not_Err
      split: option.splits result.splits prod.splits if_splits)

text \<open>
  A scrape whose login, list fetch or graph fetch returns an error: the first two end
  the scrape with nothing sent, the third is skipped and the loop goes on with the
  connections after it.
\<close>

lemma Collect_login_error:
  assumes "\<not> IsAuthenticated c" and "Authenticate E srv c = Some (Err e, srv1, c1)"
  shows "Collect E gc srv c = Some (Ok (), [], srv1, c1)"
  using assms by (simp add: Collect_def)

lemma Collect_list_error:
  assumes "ensure_session E srv c = Some (Ok (), srv1, c1)"
    and "GetConnections E srv1 c1 = Some (Err e, srv2, c2)"
  shows "Collect E gc srv c = Some (Ok (), [], srv2, c2)"
  using assms by (simp add: Collect_session)

lemma Collect_fetch_error:
  assumes "ensure_session E srv c = Some (Ok (), srv1, c1)"
    and "GetConnections E srv1 c1 = Some (Ok (pre @ x # post), srv2, c2)"
    and "collect_loop E gc pre [] srv2 c2 = Some (Ok (), ch, srv3, c3)"
    and "GetGraphData E srv3 c3 (PatientId x) = Some (Err e, srv4, c4)"
  shows "Collect E gc srv c = collect_loop E gc post ch srv4 c4"
  using assms by (simp add: Collect_session collect_loop_append collectGlucose_fetch_failed)

text \<open>
  The same three places when the call panics instead: there is no \<^verbatim>\<open>recover\<close> in the
  collector, the panic leaves \<^verbatim>\<open>Collect\<close> and the connections after the failed one are
  not processed.
\<close>

lemma Collect_login_panic:
  assumes "\<not> IsAuthenticated c" and "Authenticate E srv c = Some (Panic, srv1, c1)"
  shows "Collect E gc srv c = Some (Panic, [], srv1, c1)"
  using assms by (simp add: Collect_def)

lemma Collect_list_panic:
  assumes "ensure_session E srv c = Some (Ok (), srv1, c1)"
    and "GetConnections E srv1 c1 = Some (Panic, srv2, c2)"
  shows "Collect E gc srv c = Some (Panic, [], srv2, c2)"
  using assms by (simp add: Collect_session)

lemma Collect_fetch_panic:
  assumes "ensure_session E srv c = Some (Ok (), srv1, c1)"
    and "GetConnections E srv1 c1 = Some (Ok (pre @ x # post), srv2, c2)"
    and "collect_loop E gc pre [] srv2 c2 = Some (Ok (), ch, srv3, c3)"
    and "GetGraphData E srv3 c3 (PatientId x) = Some (Panic, srv4, c4)"
  shows "Collect E gc srv c = Some (Panic, ch, srv4, c4)"
  using assms by (simp add: Collect_session collect_loop_append collectGlucose_def)

text \<open>The two kinds of rejection, received by any request of a client.\<close>

lemma doRequest_scripted_rejection:
  "doRequest scripted (rejection 2 msg # rest) c meth endpoint body =
     Some (Err (ApiError 2 msg), rest, c)"
  by (simp add: doRequest_rejected envelope_of_scripted_response rejection_def
      unmarshal_rejection in_int64_def zero_LibreLinkResp_def)

lemma doRequest_scripted_status_only:
  "doRequest scripted (status_only 2 # rest) c meth endpoint body = Some (Panic, rest, c)"
  by (simp add: doRequest_rejected envelope_of_scripted_response status_only_def
      unmarshal_status_only zero_LibreLinkResp_def)

text \<open>
  C6 (the code at the failing input). A rejection is an envelope with a non-zero status.
  When it carries an error message, the scrape does what is asked of it: a rejected
  login or a rejected list fetch ends the scrape normally with nothing sent, and a
  rejected graph fetch for the first of two connections leaves the four observations of
  the second. When the rejection carries no \<^verbatim>\<open>error\<close> member, the request panics and so
  does the scrape, in each of the three places; in the third the second connection is
  never fetched (its answer is left unread by the remote) and nothing is sent.
\<close>

theorem Collect_rejection_without_error_panics:
  "Collect scripted NewGlucoseCollector [rejection 2 ''notAuthenticated''] client0 =
     Some (Ok (), [], [], client0) \<and>
   Collect scripted NewGlucoseCollector [status_only 2] client0 =
     Some (Panic, [], [], client0) \<and>
   Collect scripted NewGlucoseCollector [rejection 2 ''notAuthenticated''] client1 =
     Some (Ok (), [], [], client1) \<and>
   Collect scripted NewGlucoseCollector [status_only 2] client1 =
     Some (Panic, [], [], client1) \<and>
   Collect scripted NewGlucoseCollector
     [envelope (JArr [connection_doc ''p-1'' ''Ada'' ''Lovelace'',
                      connection_doc ''p-2'' ''Grace'' ''Hopper'']),
      rejection 2 ''notAuthenticated'',
      envelope (graph_doc ''p-2'' (Some (reading_doc ''9/7/2025 6:01:03 PM'' (11 / 2) 3))
        [reading_doc ''9/7/2025 5:46:03 PM'' 5 0, reading_doc ''9/7/2025 5:51:03 PM'' (51 / 10) 0])]
     client1 =
   Some (Ok (),
     [\<lparr>m_timestamp = Date 2025 9 7 18 1 3 0, m_desc = glucoseLevelDesc NewGlucoseCollector,
       m_value = Float64 (11 / 2), m_labelValues = [''p-2'', ''Grace Hopper'']\<rparr>,
      \<lparr>m_timestamp = Date 2025 9 7 18 1 3 0, m_desc = trendDesc NewGlucoseCollector,
       m_value = Float64 3, m_labelValues = [''p-2'', ''Grace Hopper'']\<rparr>,
      \<lparr>m_timestamp = Date 2025 9 7 17 46 3 0, m_desc = historicDataDesc NewGlucoseCollector,
       m_value = Float64 5, m_labelValues = [''p-2'', ''Grace Hopper'']\<rparr>,
      \<lparr>m_timestamp = Date 2025 9 7 17 51 3 0, m_desc = historicDataDesc NewGlucoseCollector,
       m_value = Float64 (51 / 10), m_labelValues = [''p-2'', ''Grace Hopper'']\<rparr>],
     [], client1) \<and>
   Collect scripted NewGlucoseCollector
     [envelope (JArr [connection_doc ''p-1'' ''Ada'' ''Lovelace'',
                      connection_doc ''p-2'' ''Grace'' ''Hopper'']),
      status_only 2,
      envelope (graph_doc ''p-2'' (Some (reading_doc ''9/7/2025 6:01:03 PM'' (11 / 2) 3))
        [reading_doc ''9/7/2025 5:46:03 PM'' 5 0, reading_doc ''9/7/2025 5:51:03 PM'' (51 / 10) 0])]
     client1 =
   Some (Panic, [],
     [envelope (graph_doc ''p-2'' (Some (reading_doc ''9/7/2025 6:01:03 PM'' (11 / 2) 3))
        [reading_doc ''9/7/2025 5:46:03 PM'' 5 0, reading_doc ''9/7/2025 5:51:03 PM'' (51 / 10) 0])],
     client1)"
proof -
  let ?gc = NewGlucoseCollector
  let ?ada = "connection_val ''p-1'' ''Ada'' ''Lovelace''"
  let ?grace = "connection_val ''p-2'' ''Grace'' ''Hopper''"
  let ?list = "envelope (JArr [connection_doc ''p-1'' ''Ada'' ''Lovelace'',
                      connection_doc ''p-2'' ''Grace'' ''Hopper''])"
  let ?g = "graph_doc ''p-2'' (Some (reading_doc ''9/7/2025 6:01:03 PM'' (11 / 2) 3))
        [reading_doc ''9/7/2025 5:46:03 PM'' 5 0, reading_doc ''9/7/2025 5:51:03 PM'' (51 / 10) 0]"
  let ?r = "reading_val (Date 2025 9 7 18 1 3 0) (11 / 2) 3"
  let ?data = "\<lparr>Connection = zero_Connection\<lparr>PatientId := ''p-2'', GlucoseMeasurement := Some ?r\<rparr>,
                GraphData = [reading_val (Date 2025 9 7 17 46 3 0) 5 0,
                             reading_val (Date 2025 9 7 17 51 3 0) (51 / 10) 0]\<rparr>"
  have n0: "\<not> IsAuthenticated client0"
    by (simp add: IsAuthenticated_def client0_def NewLibreLinkClient_def)
  have a1: "IsAuthenticated client1"
    by (simp add: IsAuthenticated_def client1_def NewLibreLinkClient_def WithCredentials_def
        WithExpiringCredentials_def)
  have s1: "ensure_session scripted srv client1 = Some (Ok (), srv, client1)" for srv
    by (simp add: ensure_session_def a1)
  have "Authenticate scripted [rejection 2 ''notAuthenticated''] client0 =
      Some (Err (ApiError 2 ''notAuthenticated''), [], client0)"
    by (simp add: Authenticate_def doRequest_scripted_rejection)
  from Collect_login_error [OF n0 this]
  have A: "Collect scripted ?gc [rejection 2 ''notAuthenticated''] client0 =
      Some (Ok (), [], [], client0)" .
  have "Authenticate scripted [status_only 2] client0 = Some (Panic, [], client0)"
    by (simp add: Authenticate_def doRequest_scripted_status_only)
  from Collect_login_panic [OF n0 this]
  have A': "Collect scripted ?gc [status_only 2] client0 = Some (Panic, [], [], client0)" .
  have "GetConnections scripted [rejection 2 ''notAuthenticated''] client1 =
      Some (Err (ApiError 2 ''notAuthenticated''), [], client1)"
    by (simp add: GetConnections_def doRequest_scripted_rejection)
  from Collect_list_error [OF s1 this]
  have B: "Collect scripted ?gc [rejection 2 ''notAuthenticated''] client1 =
      Some (Ok (), [], [], client1)" .
  have "GetConnections scripted [status_only 2] client1 = Some (Panic, [], client1)"
    by (simp add: GetConnections_def doRequest_scripted_status_only)
  from Collect_list_panic [OF s1 this]
  have B': "Collect scripted ?gc [status_only 2] client1 = Some (Panic, [], [], client1)" .
  have c2: "GetConnections scripted (?list # rest) client1 =
      Some (Ok ([] @ ?ada # [?grace]), rest, client1)" for rest
    by (simp add: GetConnections_scripted_two)
  have l0: "collect_loop scripted ?gc [] [] rest client1 = Some (Ok (), [], rest, client1)"
    for rest by simp
  have "GetGraphData scripted [rejection 2 ''notAuthenticated'', envelope ?g] client1
      (PatientId ?ada) = Some (Err (ApiError 2 ''notAuthenticated''), [envelope ?g], client1)"
    by (simp add: GetGraphData_def getGraphData_def doRequest_scripted_rejection)
  from Collect_fetch_error [OF s1 c2 l0 this]
  have C0: "Collect scripted ?gc [?list, rejection 2 ''notAuthenticated'', envelope ?g] client1 =
      collect_loop scripted ?gc [?grace] [] [envelope ?g] client1" .
  have p: "getPayload (zero_LibreLinkResp\<lparr>Data := Some ?g\<rparr>) dec_GraphData = Ok ?data"
    by (rule payload_graph [OF _ parseDate_examples(1) _ _ historic2])
       (simp_all add: in_float64_def in_int64_def)
  have d: "GetGraphData scripted [envelope ?g] client1 (PatientId ?grace) =
      Some (Ok ?data, [], client1)"
    by (rule GetGraphData_scripted [OF p])
  have e: "GlucoseMeasurement (Connection ?data) = Some ?r" by (simp add: zero_Connection_def)
  have C1: "collect_loop scripted ?gc [?grace] [] [envelope ?g] client1 =
      Some (Ok (), observations ?gc ?grace ?r (GraphData ?data), [], client1)"
    using collectGlucose_reading [OF d e two_labels_New, of "[]"] by simp
  have "GetGraphData scripted [status_only 2, envelope ?g] client1 (PatientId ?ada) =
      Some (Panic, [envelope ?g], client1)"
    by (simp add: GetGraphData_def getGraphData_def doRequest_scripted_status_only)
  from Collect_fetch_panic [OF s1 c2 l0 this]
  have C': "Collect scripted ?gc [?list, status_only 2, envelope ?g] client1 =
      Some (Panic, [], [envelope ?g], client1)" .
  from C0 C1
  have C: "Collect scripted ?gc [?list, rejection 2 ''notAuthenticated'', envelope ?g] client1 =
      Some (Ok (), observations ?gc ?grace ?r (GraphData ?data), [], client1)" by simp
  show ?thesis
    unfolding A A' B B' C C'
    by (simp add: observations_def observation_def connection_val_def reading_val_def
        zero_Connection_def zero_GlucoseMeasurement_def)
qed

subsection \<open>Parsing dates\<close>

lemma digit_char_simps:
  "digit_char 0 = CHR ''0''" "digit_char 1 = CHR ''1''" "digit_char 2 = CHR ''2''"
  "digit_char 3 = CHR ''3''" "digit_char 4 = CHR ''4''" "digit_char 5 = CHR ''5''"
  "digit_char 6 = CHR ''6''" "digit_char 7 = CHR ''7''" "digit_char 8 = CHR ''8''"
  "digit_char 9 = CHR ''9''" "digit_char (Suc 0) = CHR ''1''"
  unfolding digit_char_def by code_simp+

lemma digit_char_digit: "d < 10 \<Longrightarrow> isDigit (digit_char d) \<and> digit (digit_char d) = d"
  by (simp add: isDigit_def digit_def digit_char_def)

lemma getnum_show_num:
  "n < 100 \<Longrightarrow> \<not> isDigit c \<Longrightarrow> getnum (show_num n @ c # r) False = Some (n, c # r)"
  by (simp add: getnum_def show_num_def digit_char_digit)

lemma getnum_pad2:
  "n < 100 \<Longrightarrow> getnum (pad2 n @ r) True = Some (n, r)"
  by (simp add: getnum_def pad2_def digit_char_digit)

lemma skip_char: "p \<noteq> CHR '' '' \<Longrightarrow> skip (p # r) [p] = Some r"
  by simp

lemma skip_space: "r \<noteq> [] \<Longrightarrow> hd r \<noteq> CHR '' '' \<Longrightarrow> skip (CHR '' '' # r) '' '' = Some r"
  by (cases r) (simp_all add: cutspace_def)

lemma digits4:
  "digits [a, b, c, d] = ((digit a * 10 + digit b) * 10 + digit c) * 10 + digit d"
  by (simp add: digits_def)

lemma atoi_pad4:
  assumes "n \<le> 9999"
  shows "atoi (pad4 n) = Some n"
proof -
  have a: "n div 1000 < 10" using assms by simp
  have b: "n div 100 mod 10 < 10" "n div 10 mod 10 < 10" "n mod 10 < 10" by simp_all
  have h: "n div 100 = n div 10 div 10" "n div 1000 = n div 10 div 10 div 10"
    by (simp_all add: div_mult2_eq [symmetric])
  have v: "((n div 1000 * 10 + n div 100 mod 10) * 10 + n div 10 mod 10) * 10 + n mod 10 = n"
    unfolding h by simp
  have "list_all isDigit (pad4 n)"
    unfolding pad4_def using a b by (simp add: digit_char_digit)
  moreover have "digits (pad4 n) = n"
    unfolding pad4_def digits4 using a b v by (simp only: digit_char_digit)
  ultimately show ?thesis by (simp add: atoi_def)
qed

lemma digit_char_not_space: "d < 10 \<Longrightarrow> digit_char d \<noteq> CHR '' ''"
  using digit_char_digit [of d] by (auto simp: isDigit_def)

lemma hd_show_num:
  "show_num n @ r \<noteq> []" "n < 100 \<Longrightarrow> hd (show_num n @ r) \<noteq> CHR '' ''"
  by (simp_all add: show_num_def digit_char_not_space)

lemma pad4_parts:
  "length (pad4 y) = 4" "hd (pad4 y @ r) = digit_char (y div 1000)"
  by (simp_all add: pad4_def)

lemma parse_fraction_none: "parse_fraction (CHR '' '' # r) = Some (0, CHR '' '' # r)"
  by (simp add: parse_fraction_def commaOrPeriod_def)

lemma parse_well_formed:
  assumes "valid_fields month day year hour minute sec"
  shows "parseDate (format_DateFormat month day year hour minute sec pm) =
           Ok (Date year month day (hour24 hour pm) minute sec 0)"
proof -
  define s6 where "s6 = (if pm then ''PM'' else ''AM'')"
  define s5 where "s5 = pad2 sec @ CHR '' '' # s6"
  define s4 where "s4 = pad2 minute @ CHR '':'' # s5"
  define s3 where "s3 = show_num hour @ CHR '':'' # s4"
  define s2 where "s2 = pad4 year @ CHR '' '' # s3"
  define s1 where "s1 = show_num day @ CHR ''/'' # s2"
  have f: "format_DateFormat month day year hour minute sec pm =
             show_num month @ CHR ''/'' # s1"
    by (simp add: format_DateFormat_def s1_def s2_def s3_def s4_def s5_def s6_def)
  from assms have b: "month < 100" "day < 100" "hour < 100" "minute < 100" "sec < 100"
    "year \<le> 9999" "0 < month" "month \<le> 12" "hour \<le> 12" "minute < 60" "sec < 60"
    "1 \<le> day" "day \<le> daysIn month year" "1 \<le> hour"
    by (auto simp: valid_fields_def daysIn_def split: if_splits)
  have nd: "\<not> isDigit CHR ''/''" "\<not> isDigit CHR '':''" by (simp_all add: isDigit_def)
  have g1: "getnum (show_num month @ CHR ''/'' # s1) False = Some (month, CHR ''/'' # s1)"
    using b nd by (simp add: getnum_show_num)
  have k1: "skip (CHR ''/'' # s1) ''/'' = Some s1" by simp
  have g2: "getnum s1 False = Some (day, CHR ''/'' # s2)"
    unfolding s1_def using b nd by (simp add: getnum_show_num)
  have k2: "skip (CHR ''/'' # s2) ''/'' = Some s2" by simp
  have y1: "4 \<le> length s2 \<and> isDigit (hd s2)"
    unfolding s2_def using b by (simp add: pad4_def digit_char_digit)
  have y2: "atoi (take 4 s2) = Some year" "drop 4 s2 = CHR '' '' # s3"
    unfolding s2_def using b by (simp_all add: pad4_parts atoi_pad4)
  have k3: "skip (CHR '' '' # s3) '' '' = Some s3"
    unfolding s3_def using b by (intro skip_space hd_show_num)
  have g3: "getnum s3 False = Some (hour, CHR '':'' # s4)"
    unfolding s3_def using b nd by (simp add: getnum_show_num)
  have k4: "skip (CHR '':'' # s4) '':'' = Some s4" by simp
  have g4: "getnum s4 True = Some (minute, CHR '':'' # s5)"
    unfolding s4_def using b by (simp add: getnum_pad2)
  have k5: "skip (CHR '':'' # s5) '':'' = Some s5" by simp
  have g5: "getnum s5 True = Some (sec, CHR '' '' # s6)"
    unfolding s5_def using b by (simp add: getnum_pad2)
  have fr: "parse_fraction (CHR '' '' # s6) = Some (0, CHR '' '' # s6)"
    by (rule parse_fraction_none)
  have k6: "skip (CHR '' '' # s6) '' '' = Some s6"
    by (rule skip_space) (simp_all add: s6_def)
  have e: "length s6 = 2" "take 2 s6 = s6"
    "(s6 = ''PM'') = pm" "(s6 = ''AM'') = (\<not> pm)"
    by (simp_all add: s6_def)
  have t: "time_Parse_DateFormat (show_num month @ CHR ''/'' # s1) =
             Some (Date year month day (hour24 hour pm) minute sec 0)"
    unfolding time_Parse_DateFormat_def
    apply (simp only: g1 k1 g2 k2 y1 y2 k3 g3 k4 g4 k5 g5 fr k6 e check_def bind.simps
        prod.case b if_True simp_thms)
    apply (insert b)
    apply (simp add: hour24_def e)
    done
  show ?thesis unfolding parseDate_def f t by simp
qed


lemma digit_bound: "isDigit c \<Longrightarrow> digit c < 10"
  by (auto simp: isDigit_def digit_def)

lemma getnum_bound:
  assumes "getnum s f = Some (n, r)"
  shows "n < 100"
proof (cases s)
  case Nil
  with assms show ?thesis by (simp add: getnum_def)
next
  case s: (Cons c s')
  with assms have c: "isDigit c" by (auto simp: getnum_def split: if_splits)
  show ?thesis
  proof (cases s')
    case Nil
    with s assms digit_bound [OF c] show ?thesis
      by (auto simp: getnum_def split: if_splits)
  next
    case (Cons d s'')
    show ?thesis
    proof (cases "isDigit d")
      case True
      with s Cons assms c have "n = digit c * 10 + digit d" by (simp add: getnum_def)
      with digit_bound [OF c] digit_bound [OF True] show ?thesis by simp
    next
      case False
      with s Cons assms c have "n = digit c" by (auto simp: getnum_def split: if_splits)
      with digit_bound [OF c] show ?thesis by simp
    qed
  qed
qed

lemma foldl_digits:
  "foldl (\<lambda>a c. a * 10 + digit c) a s = a * 10 ^ length s + foldl (\<lambda>a c. a * 10 + digit c) 0 s"
proof (induction s arbitrary: a)
  case Nil
  show ?case by simp
next
  case (Cons c s)
  show ?case
    by (subst (1 2) foldl_Cons, subst (1 2) Cons.IH) (simp add: algebra_simps)
qed

lemma digits_bound: "list_all isDigit s \<Longrightarrow> digits s < 10 ^ length s"
proof (induction s)
  case Nil
  show ?case by (simp add: digits_def)
next
  case (Cons c s)
  then have c: "digit c < 10" and s: "digits s < 10 ^ length s"
    by (simp_all add: digit_bound)
  have "digits (c # s) = digit c * 10 ^ length s + digits s"
    unfolding digits_def by (subst foldl_Cons, subst foldl_digits) simp
  also have "\<dots> < 10 * 10 ^ length s"
  proof -
    have "digit c * 10 ^ length s \<le> 9 * 10 ^ length s"
      using c by (intro mult_le_mono1) simp
    with s show ?thesis by linarith
  qed
  finally show ?case by simp
qed

lemma atoi_bound: "atoi s = Some y \<Longrightarrow> y < 10 ^ length s"
  by (auto simp: atoi_def digits_bound split: if_splits)

lemma parseNanoseconds_bound:
  assumes "parseNanoseconds v n = Some ns" and "2 \<le> n"
  shows "ns < 10 ^ 9"
proof -
  define m where "m = min n 10"
  have m: "2 \<le> m" "m \<le> 10" using assms(2) by (simp_all add: m_def)
  from assms(1) obtain d where d: "atoi (take (m - 1) (tl v)) = Some d"
    and ns: "ns = d * 10 ^ (10 - m)"
    by (auto simp: parseNanoseconds_def m_def Let_def split: if_splits)
  have "length (take (m - 1) (tl v)) \<le> m - 1" by simp
  then have "(10::nat) ^ length (take (m - 1) (tl v)) \<le> 10 ^ (m - 1)"
    by (rule power_increasing) simp
  with atoi_bound [OF d] have "d < 10 ^ (m - 1)" by (rule less_le_trans)
  then have "d * 10 ^ (10 - m) < 10 ^ (m - 1) * 10 ^ (10 - m)" by simp
  also have "\<dots> = 10 ^ 9" using m by (simp add: power_add [symmetric])
  finally show ?thesis by (simp add: ns)
qed

lemma parse_fraction_bound: "parse_fraction v = Some (ns, r) \<Longrightarrow> ns < 10 ^ 9"
  by (auto simp: parse_fraction_def Let_def split: if_splits dest!: parseNanoseconds_bound)

lemma atoi_year_bound:
  assumes "atoi (take 4 v) = Some y"
  shows "y \<le> 9999"
proof -
  have "(10::nat) ^ length (take 4 v) \<le> 10 ^ 4" by (rule power_increasing) simp_all
  with atoi_bound [OF assms] have "y < 10 ^ 4" by (rule less_le_trans)
  then show ?thesis by simp
qed

lemma bind_pair_SomeE:
  assumes "Option.bind m (\<lambda>(a, b). f a b) = Some y"
  obtains a b where "m = Some (a, b)" and "f a b = Some y"
  using assms by (cases m) auto

lemma bind_check_SomeE:
  assumes "Option.bind (check c) (\<lambda>_. f) = Some y"
  obtains "c" and "f = Some y"
  using assms by (cases c) (auto simp: check_def)

lemma bind_SomeE:
  assumes "Option.bind m f = Some y"
  obtains x where "m = Some x" and "f x = Some y"
  using assms by (cases m) auto

lemma time_Parse_valid:
  assumes "time_Parse_DateFormat s = Some t"
  shows "valid_instant t"
  using assms unfolding time_Parse_DateFormat_def
proof (elim bind_pair_SomeE bind_check_SomeE bind_SomeE)
  fix month v1 v2 day v3 v4 year v5 hour v6 v7 minute v8 v9 sec v10 nsec v11 v12
  assume a: "getnum s False = Some (month, v1)" "0 < month \<and> month \<le> 12"
       "getnum v2 False = Some (day, v3)"
       "atoi (take 4 v4) = Some year"
       "getnum v5 False = Some (hour, v6)" "hour \<le> 12"
       "getnum v7 True = Some (minute, v8)" "minute < 60"
       "getnum v9 True = Some (sec, v10)" "sec < 60"
       "parse_fraction v10 = Some (nsec, v11)"
       "1 \<le> day \<and> day \<le> daysIn month year"
  assume t: "Some (Date year month day
             (if take 2 v12 = ''PM'' \<and> hour < 12 then hour + 12
              else if take 2 v12 = ''AM'' \<and> hour = 12 then 0 else hour)
             minute sec nsec) = Some t"
  from a(4) have "year \<le> 9999" by (rule atoi_year_bound)
  moreover from a(11) have "nsec < 10 ^ 9" by (rule parse_fraction_bound)
  ultimately show ?thesis using a t by (auto simp: valid_instant_def)
qed


lemma parseDate_valid: "parseDate s = Ok t \<Longrightarrow> valid_instant t"
  by (auto simp: parseDate_def split: option.splits dest: time_Parse_valid)

lemma UnmarshalJSON_timestamp:
  assumes "unmarshal (GlucoseMeasurement_UnmarshalJSON data g) = Ok g'"
  shows "parseDate (timestamp_text data g) = Ok (Timestamp g')"
proof -
  let ?d = "dec_struct GlucoseMeasurement_aux_member data
              \<lparr>aux_Timestamp = [], aux_Measurement = g\<rparr>"
  from assms have n: "data \<noteq> JNull"
    by (auto simp: GlucoseMeasurement_UnmarshalJSON_def unmarshal_def)
  then have u: "GlucoseMeasurement_UnmarshalJSON data g =
      (case unmarshal ?d of
         Err e \<Rightarrow> Abort e
       | Panic \<Rightarrow> Crash
       | Ok aux \<Rightarrow>
           (case parseDate (aux_Timestamp aux) of
              Err e \<Rightarrow> Abort e
            | Panic \<Rightarrow> Crash
            | Ok t \<Rightarrow> Done ((aux_Measurement aux)\<lparr>Timestamp := t\<rparr>) False))"
    by (cases data) (simp_all add: GlucoseMeasurement_UnmarshalJSON_def)
  from assms obtain aux where a: "unmarshal ?d = Ok aux"
    unfolding u by (cases "unmarshal ?d") (simp_all add: unmarshal_def)
  then have d: "?d = Done aux False"
    by (cases ?d) (auto simp: unmarshal_def split: if_splits)
  from assms a obtain t where t: "parseDate (aux_Timestamp aux) = Ok t"
    and g': "g' = (aux_Measurement aux)\<lparr>Timestamp := t\<rparr>"
    unfolding u by (cases "parseDate (aux_Timestamp aux)") (simp_all add: unmarshal_def)
  from d have "timestamp_text data g = aux_Timestamp aux" by (simp add: timestamp_text_def)
  with t g' show ?thesis by simp
qed

text \<open>The parser accepts exactly the strings of the tolerated form.\<close>

lemma digits_simps:
  "digits [] = 0" "digits [a] = digit a" "digits [a, b] = digit a * 10 + digit b"
  by (simp_all add: digits_def)

lemma numeral12_cases:
  assumes "numeral12 ds"
  obtains a where "ds = [a]" "isDigit a"
        | a b where "ds = [a, b]" "isDigit a" "isDigit b"
proof -
  from assms have l: "length ds = 1 \<or> length ds = 2" and d: "list_all isDigit ds"
    by (simp_all add: numeral12_def)
  from l show thesis
  proof
    assume "length ds = 1"
    then obtain a where "ds = [a]" by (cases ds) auto
    with d that(1) show thesis by simp
  next
    assume "length ds = 2"
    then obtain a b where "ds = [a, b]"
      by (cases ds) (auto simp: length_Suc_conv)
    with d that(2) show thesis by simp
  qed
qed

lemma getnum_numeral12:
  assumes "numeral12 ds" and "r = [] \<or> \<not> isDigit (hd r)"
  shows "getnum (ds @ r) False = Some (digits ds, r)"
  using assms(1)
proof (cases rule: numeral12_cases)
  case (1 a)
  with assms(2) show ?thesis by (cases r) (auto simp: getnum_def digits_simps)
next
  case (2 a b)
  then show ?thesis by (simp add: getnum_def digits_simps)
qed

lemma getnum_numeral2:
  assumes "numeral 2 ds"
  shows "getnum (ds @ r) True = Some (digits ds, r)"
proof -
  from assms obtain a b where "ds = [a, b]" "isDigit a" "isDigit b"
    by (cases ds) (auto simp: numeral_def length_Suc_conv)
  then show ?thesis by (simp add: getnum_def digits_simps)
qed

lemma getnum_False_inv:
  assumes "getnum s False = Some (n, r)"
  obtains ds where "s = ds @ r" "numeral12 ds" "digits ds = n"
proof (cases s)
  case Nil
  with assms show ?thesis by (simp add: getnum_def)
next
  case s: (Cons c s')
  with assms have c: "isDigit c" by (auto simp: getnum_def split: if_splits)
  show ?thesis
  proof (cases s')
    case Nil
    with s assms c have "s = [c] @ r" "digits [c] = n"
      by (auto simp: getnum_def digits_simps split: if_splits)
    with c that [of "[c]"] show ?thesis by (simp add: numeral12_def)
  next
    case (Cons d s'')
    show ?thesis
    proof (cases "isDigit d")
      case True
      with s Cons assms c have "s = [c, d] @ r" "digits [c, d] = n"
        by (auto simp: getnum_def digits_simps)
      with c True that [of "[c, d]"] show ?thesis by (simp add: numeral12_def)
    next
      case False
      with s Cons assms c have "s = [c] @ r" "digits [c] = n"
        by (auto simp: getnum_def digits_simps split: if_splits)
      with c that [of "[c]"] show ?thesis by (simp add: numeral12_def)
    qed
  qed
qed

lemma getnum_True_inv:
  assumes "getnum s True = Some (n, r)"
  obtains ds where "s = ds @ r" "numeral 2 ds" "digits ds = n"
proof -
  from assms obtain c d where "s = [c, d] @ r" "isDigit c" "isDigit d" "digits [c, d] = n"
    by (auto simp: getnum_def digits_simps split: list.splits if_splits)
  with that [of "[c, d]"] show ?thesis by (simp add: numeral_def)
qed

lemma skip_char_inv:
  assumes "skip v [p] = Some r" and "p \<noteq> CHR '' ''"
  shows "v = p # r"
  using assms by (cases v) (auto split: if_splits)

lemma cutspace_spaces: "r = [] \<or> hd r \<noteq> CHR '' '' \<Longrightarrow> cutspace (spaces n @ r) = r"
  by (cases r) (auto simp: cutspace_def spaces_def dropWhile_append3)

lemma skip_spaces:
  assumes "r = [] \<or> hd r \<noteq> CHR '' ''"
  shows "skip (spaces (Suc n) @ r) '' '' = Some r"
proof -
  have "cutspace (spaces (Suc n) @ r) = r" using assms by (rule cutspace_spaces)
  then show ?thesis by (simp add: spaces_def cutspace_def)
qed

lemma spaces_cutspace: "\<exists>n. v = spaces n @ cutspace v \<and> (v \<noteq> [] \<and> hd v = CHR '' '' \<longrightarrow> 0 < n)"
proof -
  have "v = takeWhile (\<lambda>c. c = CHR '' '') v @ cutspace v" by (simp add: cutspace_def)
  moreover have "takeWhile (\<lambda>c. c = CHR '' '') v = spaces (length (takeWhile (\<lambda>c. c = CHR '' '') v))"
    unfolding spaces_def
    by (rule replicate_length_same [symmetric]) (auto dest: set_takeWhileD)
  moreover have "v \<noteq> [] \<and> hd v = CHR '' '' \<longrightarrow> 0 < length (takeWhile (\<lambda>c. c = CHR '' '') v)"
    by (cases v) auto
  ultimately show ?thesis by metis
qed

lemma skip_space_inv:
  assumes "skip v '' '' = Some r" and "r \<noteq> []"
  obtains n where "v = spaces (Suc n) @ r"
proof -
  from assms have r: "r = cutspace v" and v: "v = [] \<or> hd v = CHR '' ''"
    by (auto simp: cutspace_def split: if_splits)
  from r assms(2) have "v \<noteq> []" by (auto simp: cutspace_def)
  with v spaces_cutspace [of v] r obtain n where "v = spaces n @ r" "0 < n" by auto
  then obtain k where "v = spaces (Suc k) @ r" by (cases n) auto
  then show thesis by (rule that)
qed


lemma isDigit_not_space: "isDigit c \<Longrightarrow> c \<noteq> CHR '' ''"
  by (auto simp: isDigit_def)

lemma parseNanoseconds_fraction:
  assumes "commaOrPeriod sep" and "list_all isDigit fd"
  shows "parseNanoseconds (sep # fd @ r) (Suc (length fd)) =
           Some (digits (take 9 fd) * 10 ^ (9 - length (take 9 fd)))"
proof -
  have t: "take (min (length fd) 9) fd = take 9 fd"
    by (cases "length fd \<le> 9") (simp_all add: min_def)
  have e: "10 - min (Suc (length fd)) 10 = 9 - length (take 9 fd)"
    by (simp add: min_def)
  have d: "list_all isDigit (take 9 fd)"
    using assms(2) by (auto simp: list_all_iff dest: in_set_takeD)
  show ?thesis
    using assms(1) by (simp add: parseNanoseconds_def Let_def t e atoi_def d)
qed

lemma parse_fraction_fraction:
  assumes "fraction fr nsec"
  shows "parse_fraction (fr @ CHR '' '' # r) = Some (nsec, CHR '' '' # r)"
proof (cases "fr = []")
  case True
  with assms show ?thesis by (simp add: fraction_def parse_fraction_def commaOrPeriod_def)
next
  case False
  with assms obtain sep fd where fr: "fr = sep # fd" and sep: "commaOrPeriod sep"
    and fd: "fd \<noteq> []" "list_all isDigit fd"
    and nsec: "nsec = digits (take 9 fd) * 10 ^ (9 - length (take 9 fd))"
    by (auto simp: fraction_def)
  from fd obtain d fd' where fd': "fd = d # fd'" "isDigit d" "list_all isDigit fd'"
    by (cases fd) auto
  have tw: "takeWhile isDigit (fd' @ CHR '' '' # r) = fd'"
    using fd'(3) by (simp add: takeWhile_append2 list_all_iff isDigit_def)
  have n: "2 + length (takeWhile isDigit (drop 2 (fr @ CHR '' '' # r))) = Suc (length fd)"
    by (simp add: fr fd' tw)
  have c: "2 \<le> length (fr @ CHR '' '' # r) \<and> commaOrPeriod (hd (fr @ CHR '' '' # r)) \<and>
           isDigit ((fr @ CHR '' '' # r) ! 1)"
    using sep fd' by (simp add: fr)
  have p: "parseNanoseconds (fr @ CHR '' '' # r) (Suc (length fd)) = Some nsec"
    using parseNanoseconds_fraction [OF sep fd(2), of "CHR '' '' # r"] by (simp add: fr nsec)
  have dr: "drop (Suc (length fd)) (fr @ CHR '' '' # r) = CHR '' '' # r" by (simp add: fr)
  show ?thesis
    unfolding parse_fraction_def using c by (simp only: n p dr Let_def option.map simp_thms if_True)
qed

lemma parse_fraction_inv:
  assumes "parse_fraction v = Some (nsec, r)"
  obtains fr where "v = fr @ r" "fraction fr nsec"
proof (cases "2 \<le> length v \<and> commaOrPeriod (hd v) \<and> isDigit (v ! 1)")
  case False
  with assms have "v = [] @ r" "fraction [] nsec"
    by (auto simp: parse_fraction_def fraction_def)
  then show ?thesis by (rule that)
next
  case True
  then obtain sep d rest where v: "v = sep # d # rest" and sep: "commaOrPeriod sep"
    and d: "isDigit d"
    by (cases v; cases "tl v") auto
  define fd where "fd = d # takeWhile isDigit rest"
  have fd: "list_all isDigit fd" "fd \<noteq> []"
    using d by (auto simp: fd_def list_all_iff dest: set_takeWhileD)
  have vv: "v = sep # fd @ dropWhile isDigit rest" by (simp add: v fd_def)
  have n: "2 + length (takeWhile isDigit (drop 2 v)) = Suc (length fd)"
    by (simp add: v fd_def)
  have dr: "drop (Suc (length fd)) v = dropWhile isDigit rest"
    by (simp add: v fd_def dropWhile_eq_drop [symmetric])
  have p: "parseNanoseconds v (Suc (length fd)) =
      Some (digits (take 9 fd) * 10 ^ (9 - length (take 9 fd)))"
    unfolding vv by (rule parseNanoseconds_fraction [OF sep fd(1)])
  from assms True have "nsec = digits (take 9 fd) * 10 ^ (9 - length (take 9 fd))"
    and "r = dropWhile isDigit rest"
    unfolding parse_fraction_def by (simp_all only: n p dr Let_def option.map simp_thms if_True
        option.inject prod.inject)
  with vv sep fd have "v = (sep # fd) @ r" "fraction (sep # fd) nsec"
    by (auto simp: fraction_def)
  then show ?thesis by (rule that)
qed


lemma numeral12_hd:
  assumes "numeral12 ds"
  shows "ds @ r \<noteq> []" "isDigit (hd (ds @ r))"
  using assms by (cases rule: numeral12_cases; simp)+

lemma numeral4_parts:
  assumes "numeral 4 yd"
  shows "4 \<le> length (yd @ r)" "isDigit (hd (yd @ r))" "atoi (take 4 (yd @ r)) = Some (digits yd)"
    "drop 4 (yd @ r) = r"
proof -
  from assms have l: "length yd = 4" and d: "list_all isDigit yd" by (simp_all add: numeral_def)
  from l obtain a yd' where "yd = a # yd'" by (cases yd) auto
  with d show "isDigit (hd (yd @ r))" by simp
  from l show "4 \<le> length (yd @ r)" "drop 4 (yd @ r) = r" by simp_all
  from l d show "atoi (take 4 (yd @ r)) = Some (digits yd)" by (simp add: atoi_def)
qed

lemma time_Parse_tolerated:
  assumes s: "s = md @ ''/'' @ dd @ ''/'' @ yd @ spaces (Suc n1) @ hrd @ '':'' @ mind @ '':'' @
      secd @ fr @ spaces (Suc n2) @ (if pm then ''PM'' else ''AM'')"
    and n: "numeral12 md" "numeral12 dd" "numeral 4 yd" "numeral12 hrd" "numeral 2 mind"
      "numeral 2 secd" "fraction fr nsec"
    and r: "1 \<le> digits md" "digits md \<le> 12" "1 \<le> digits dd"
      "digits dd \<le> daysIn (digits md) (digits yd)" "digits hrd \<le> 12" "digits mind < 60"
      "digits secd < 60"
  shows "time_Parse_DateFormat s =
           Some (Date (digits yd) (digits md) (digits dd) (hour24 (digits hrd) pm) (digits mind)
                   (digits secd) nsec)"
proof -
  define s6 where "s6 = (if pm then ''PM'' else ''AM'')"
  define s5' where "s5' = CHR '' '' # spaces n2 @ s6"
  define s5 where "s5 = secd @ fr @ s5'"
  define s4 where "s4 = mind @ CHR '':'' # s5"
  define s3 where "s3 = hrd @ CHR '':'' # s4"
  define s2' where "s2' = spaces (Suc n1) @ s3"
  define s2 where "s2 = yd @ s2'"
  define s1 where "s1 = dd @ CHR ''/'' # s2"
  have f: "s = md @ CHR ''/'' # s1"
    by (simp add: s s1_def s2_def s2'_def s3_def s4_def s5_def s5'_def s6_def spaces_def)
  have nd: "\<not> isDigit CHR ''/''" "\<not> isDigit CHR '':''" by (simp_all add: isDigit_def)
  have g1: "getnum (md @ CHR ''/'' # s1) False = Some (digits md, CHR ''/'' # s1)"
    using n(1) nd by (intro getnum_numeral12) simp_all
  have k1: "skip (CHR ''/'' # s1) ''/'' = Some s1" by simp
  have g2: "getnum s1 False = Some (digits dd, CHR ''/'' # s2)"
    unfolding s1_def using n(2) nd by (intro getnum_numeral12) simp_all
  have k2: "skip (CHR ''/'' # s2) ''/'' = Some s2" by simp
  have y1: "4 \<le> length s2 \<and> isDigit (hd s2)"
    unfolding s2_def using numeral4_parts [OF n(3)] by simp
  have y2: "atoi (take 4 s2) = Some (digits yd)" "drop 4 s2 = s2'"
    unfolding s2_def using numeral4_parts [OF n(3)] by simp_all
  have k3: "skip s2' '' '' = Some s3"
    unfolding s2'_def s3_def
    using numeral12_hd [OF n(4)] by (intro skip_spaces) (auto dest: isDigit_not_space)
  have g3: "getnum s3 False = Some (digits hrd, CHR '':'' # s4)"
    unfolding s3_def using n(4) nd by (intro getnum_numeral12) simp_all
  have k4: "skip (CHR '':'' # s4) '':'' = Some s4" by simp
  have g4: "getnum s4 True = Some (digits mind, CHR '':'' # s5)"
    unfolding s4_def using n(5) by (rule getnum_numeral2)
  have k5: "skip (CHR '':'' # s5) '':'' = Some s5" by simp
  have g5: "getnum s5 True = Some (digits secd, fr @ s5')"
    unfolding s5_def using n(6) by (rule getnum_numeral2)
  have fr: "parse_fraction (fr @ s5') = Some (nsec, s5')"
    unfolding s5'_def using n(7) by (rule parse_fraction_fraction)
  have k6: "skip s5' '' '' = Some s6"
  proof -
    have "skip (spaces (Suc n2) @ s6) '' '' = Some s6"
      by (rule skip_spaces) (simp add: s6_def)
    then show ?thesis by (simp add: s5'_def spaces_def)
  qed
  have e: "length s6 = 2" "take 2 s6 = s6"
    "(s6 = ''PM'') = pm" "(s6 = ''AM'') = (\<not> pm)"
    by (simp_all add: s6_def)
  show ?thesis
    unfolding time_Parse_DateFormat_def f
    apply (simp only: g1 k1 g2 k2 y1 y2 k3 g3 k4 g4 k5 g5 fr k6 e check_def bind.simps
        prod.case r if_True simp_thms)
    apply (insert r)
    apply (simp add: hour24_def e)
    done
qed


lemma time_Parse_inv:
  assumes "time_Parse_DateFormat s = Some t"
  shows "tolerated s t"
  using assms unfolding time_Parse_DateFormat_def
proof (elim bind_pair_SomeE bind_check_SomeE bind_SomeE)
  fix month v1 v2 day v3 v4 year v5 hour v6 v7 minute v8 v9 sec v10 nsec v11 v12
  assume g1: "getnum s False = Some (month, v1)" and c1: "0 < month \<and> month \<le> 12"
    and k1: "skip v1 ''/'' = Some v2"
    and g2: "getnum v2 False = Some (day, v3)"
    and k2: "skip v3 ''/'' = Some v4"
    and c2: "4 \<le> length v4 \<and> isDigit (hd v4)"
    and y: "atoi (take 4 v4) = Some year"
    and k3: "skip (drop 4 v4) '' '' = Some v5"
    and g3: "getnum v5 False = Some (hour, v6)" and c3: "hour \<le> 12"
    and k4: "skip v6 '':'' = Some v7"
    and g4: "getnum v7 True = Some (minute, v8)" and c4: "minute < 60"
    and k5: "skip v8 '':'' = Some v9"
    and g5: "getnum v9 True = Some (sec, v10)" and c5: "sec < 60"
    and fr: "parse_fraction v10 = Some (nsec, v11)"
    and k6: "skip v11 '' '' = Some v12"
    and c6: "2 \<le> length v12" and c7: "take 2 v12 = ''PM'' \<or> take 2 v12 = ''AM''"
    and c8: "drop 2 v12 = []"
    and c9: "1 \<le> day \<and> day \<le> daysIn month year"
    and t: "Some (Date year month day
             (if take 2 v12 = ''PM'' \<and> hour < 12 then hour + 12
              else if take 2 v12 = ''AM'' \<and> hour = 12 then 0 else hour)
             minute sec nsec) = Some t"
  from g1 obtain md where md: "s = md @ v1" "numeral12 md" "digits md = month"
    by (rule getnum_False_inv)
  from k1 have v1: "v1 = CHR ''/'' # v2" by (rule skip_char_inv) simp
  from g2 obtain dd where dd: "v2 = dd @ v3" "numeral12 dd" "digits dd = day"
    by (rule getnum_False_inv)
  from k2 have v3: "v3 = CHR ''/'' # v4" by (rule skip_char_inv) simp
  define yd where "yd = take 4 v4"
  from c2 y have yd: "v4 = yd @ drop 4 v4" "numeral 4 yd" "digits yd = year"
    by (auto simp: yd_def numeral_def atoi_def split: if_splits)
  from g3 have "v5 \<noteq> []" by (auto simp: getnum_def)
  with k3 obtain n1 where v4': "drop 4 v4 = spaces (Suc n1) @ v5" by (rule skip_space_inv)
  from g3 obtain hrd where hrd: "v5 = hrd @ v6" "numeral12 hrd" "digits hrd = hour"
    by (rule getnum_False_inv)
  from k4 have v6: "v6 = CHR '':'' # v7" by (rule skip_char_inv) simp
  from g4 obtain mind where mind: "v7 = mind @ v8" "numeral 2 mind" "digits mind = minute"
    by (rule getnum_True_inv)
  from k5 have v8: "v8 = CHR '':'' # v9" by (rule skip_char_inv) simp
  from g5 obtain secd where secd: "v9 = secd @ v10" "numeral 2 secd" "digits secd = sec"
    by (rule getnum_True_inv)
  from fr obtain frd where frd: "v10 = frd @ v11" "fraction frd nsec"
    by (rule parse_fraction_inv)
  from c6 have "v12 \<noteq> []" by auto
  with k6 obtain n2 where v11: "v11 = spaces (Suc n2) @ v12" by (rule skip_space_inv)
  from c6 c8 have "take 2 v12 = v12" by simp
  with c7 have v12: "v12 = ''PM'' \<or> v12 = ''AM''" by simp
  define pm where "pm \<longleftrightarrow> v12 = ''PM''"
  from v12 have ap: "v12 = (if pm then ''PM'' else ''AM'')" by (auto simp: pm_def)
  have h: "(if take 2 v12 = ''PM'' \<and> hour < 12 then hour + 12
              else if take 2 v12 = ''AM'' \<and> hour = 12 then 0 else hour) = hour24 hour pm"
    using v12 by (auto simp: hour24_def pm_def)
  have str: "s = md @ ''/'' @ dd @ ''/'' @ yd @ spaces (Suc n1) @ hrd @ '':'' @ mind @ '':'' @
      secd @ frd @ spaces (Suc n2) @ (if pm then ''PM'' else ''AM'')"
    apply (subst md(1), subst v1, subst dd(1), subst v3, subst yd(1), subst v4', subst hrd(1),
        subst v6, subst mind(1), subst v8, subst secd(1), subst frd(1), subst v11, subst ap)
    apply simp
    done
  from t h have tt: "t = Date (digits yd) (digits md) (digits dd) (hour24 (digits hrd) pm)
      (digits mind) (digits secd) nsec"
    by (simp add: md dd yd hrd mind secd)
  show ?thesis
    unfolding tolerated_def
    apply (rule exI [of _ md], rule exI [of _ dd], rule exI [of _ yd], rule exI [of _ n1],
        rule exI [of _ hrd], rule exI [of _ mind], rule exI [of _ secd], rule exI [of _ frd],
        rule exI [of _ nsec], rule exI [of _ n2], rule exI [of _ pm])
    using str tt md(2,3) dd(2,3) yd(2,3) hrd(2,3) mind(2,3) secd(2,3) frd(2) c1 c3 c4 c5 c9
    apply (intro conjI)
    apply simp_all
    done
qed

lemma parseDate_tolerated: "parseDate s = Ok t \<longleftrightarrow> tolerated s t"
proof
  assume "parseDate s = Ok t"
  then have "time_Parse_DateFormat s = Some t"
    by (auto simp: parseDate_def split: option.splits)
  then show "tolerated s t" by (rule time_Parse_inv)
next
  assume "tolerated s t"
  then have "time_Parse_DateFormat s = Some t"
    unfolding tolerated_def by (elim exE conjE) (simp add: time_Parse_tolerated)
  then show "parseDate s = Ok t" by (simp add: parseDate_def)
qed

text \<open>
  C8 (amended). For the string of a valid date and time of day in the form
  \<^verbatim>\<open>M/D/YYYY h:mm:ss AM|PM\<close>, \<^verbatim>\<open>parseDate\<close> returns that date and time (in UTC),
  without a fraction of a second. It returns an instant exactly for the strings of the
  tolerated form, and fails for every other string. When \<^verbatim>\<open>parseDate\<close> fails on the
  date string of a measurement, the measurement is not decoded. A measurement that is
  decoded carries the instant parsed from its own date string, which is a date of the
  calendar and a time of the clock, never the zero time.
\<close>

theorem parseDate_exact_or_error:
  "(valid_fields month day year hour minute sec \<longrightarrow>
      parseDate (format_DateFormat month day year hour minute sec pm) =
        Ok (Date year month day (hour24 hour pm) minute sec 0)) \<and>
   (parseDate s = Ok t \<longleftrightarrow> tolerated s t) \<and>
   ((\<forall>t. \<not> tolerated s t) \<longrightarrow> parseDate s = Err TimeParseError) \<and>
   (parseDate (timestamp_text data g) = Err e \<longrightarrow>
      unmarshal (GlucoseMeasurement_UnmarshalJSON data g) \<noteq> Ok g') \<and>
   (unmarshal (GlucoseMeasurement_UnmarshalJSON data g) = Ok g' \<longrightarrow>
      parseDate (timestamp_text data g) = Ok (Timestamp g') \<and> valid_instant (Timestamp g'))"
proof (intro conjI impI)
  assume "valid_fields month day year hour minute sec"
  then show "parseDate (format_DateFormat month day year hour minute sec pm) =
        Ok (Date year month day (hour24 hour pm) minute sec 0)"
    by (rule parse_well_formed)
next
  show "parseDate s = Ok t \<longleftrightarrow> tolerated s t" by (rule parseDate_tolerated)
next
  assume n: "\<forall>t. \<not> tolerated s t"
  show "parseDate s = Err TimeParseError"
  proof (cases "time_Parse_DateFormat s")
    case None
    then show ?thesis by (simp add: parseDate_def)
  next
    case (Some a)
    then have "parseDate s = Ok a" by (simp add: parseDate_def)
    with n show ?thesis by (simp add: parseDate_tolerated)
  qed
next
  assume "parseDate (timestamp_text data g) = Err e"
  then show "unmarshal (GlucoseMeasurement_UnmarshalJSON data g) \<noteq> Ok g'"
    using UnmarshalJSON_timestamp [of data g g'] by auto
next
  assume a: "unmarshal (GlucoseMeasurement_UnmarshalJSON data g) = Ok g'"
  then show "parseDate (timestamp_text data g) = Ok (Timestamp g')"
    by (rule UnmarshalJSON_timestamp)
  then show "valid_instant (Timestamp g')" by (rule parseDate_valid)
qed

lemma digit_char_not_period:
  assumes "d < 10"
  shows "CHR ''.'' \<noteq> digit_char d"
proof
  assume "CHR ''.'' = digit_char d"
  with digit_char_digit [OF assms] have "isDigit CHR ''.''" by simp
  then show False by (simp add: isDigit_def)
qed

lemma no_period_in_digits:
  "n < 100 \<Longrightarrow> CHR ''.'' \<notin> set (show_num n)"
  "n < 100 \<Longrightarrow> CHR ''.'' \<notin> set (pad2 n)"
  "n \<le> 9999 \<Longrightarrow> CHR ''.'' \<notin> set (pad4 n)"
  by (simp_all add: show_num_def pad2_def pad4_def digit_char_not_period)

lemma no_period_in_format:
  assumes "valid_fields month day year hour minute sec"
  shows "CHR ''.'' \<notin> set (format_DateFormat month day year hour minute sec pm)"
proof -
  from assms have b: "month < 100" "day < 100" "hour < 100" "minute < 100" "sec < 100"
    "year \<le> 9999"
    by (auto simp: valid_fields_def daysIn_def split: if_splits)
  then show ?thesis
    by (simp add: format_DateFormat_def no_period_in_digits)
qed

text \<open>
  C8 (as stated, refuted). A string that is not of the form \<^verbatim>\<open>M/D/YYYY h:mm:ss AM|PM\<close>
  (a fraction follows the seconds) is parsed without an error, as the standard library
  documents for a layout without fractional seconds.
\<close>

theorem parseDate_malformed_counterexample:
  "\<not> well_formed ''9/7/2025 6:01:03.5 PM'' \<and>
   parseDate ''9/7/2025 6:01:03.5 PM'' = Ok (Date 2025 9 7 18 1 3 500000000)"
proof
  show "\<not> well_formed ''9/7/2025 6:01:03.5 PM''"
  proof
    assume "well_formed ''9/7/2025 6:01:03.5 PM''"
    then obtain month day year hour minute sec pm where
      v: "valid_fields month day year hour minute sec" and
      s: "''9/7/2025 6:01:03.5 PM'' = format_DateFormat month day year hour minute sec pm"
      unfolding well_formed_def by blast
    from no_period_in_format [OF v, of pm] s [symmetric] show False by simp
  qed
next
  show "parseDate ''9/7/2025 6:01:03.5 PM'' = Ok (Date 2025 9 7 18 1 3 500000000)"
    by (simp add: parse_defs)
qed

text \<open>
  The amended C8 at the example of the specification, at the malformed example of the
  repository's test, and at two measurement documents with these date strings.
\<close>

theorem parseDate_exact_or_error_witness:
  "valid_fields 9 7 2025 6 1 3 \<and>
   parseDate ''9/7/2025 6:01:03 PM'' = Ok (Date 2025 9 7 18 1 3 0) \<and>
   tolerated ''9/7/2025 6:01:03 PM'' (Date 2025 9 7 18 1 3 0) \<and>
   (\<forall>t. \<not> tolerated ''19/7/2025 6:01:03 PM'' t) \<and>
   parseDate ''19/7/2025 6:01:03 PM'' = Err TimeParseError \<and>
   timestamp_text (reading_doc ''19/7/2025 6:01:03 PM'' 5 0) zero_GlucoseMeasurement =
     ''19/7/2025 6:01:03 PM'' \<and>
   unmarshal (GlucoseMeasurement_UnmarshalJSON (reading_doc ''19/7/2025 6:01:03 PM'' 5 0)
      zero_GlucoseMeasurement) = Err TimeParseError \<and>
   unmarshal (GlucoseMeasurement_UnmarshalJSON (reading_doc ''9/7/2025 6:01:03 PM'' 5 0)
      zero_GlucoseMeasurement) = Ok (reading_val (Date 2025 9 7 18 1 3 0) 5 0) \<and>
   valid_instant (Date 2025 9 7 18 1 3 0)"
proof -
  let ?bad = "reading_doc ''19/7/2025 6:01:03 PM'' 5 0"
  let ?good = "reading_doc ''9/7/2025 6:01:03 PM'' 5 0"
  let ?g = "reading_val (Date 2025 9 7 18 1 3 0) 5 0"
  have v: "valid_fields 9 7 2025 6 1 3" by (simp add: valid_fields_def daysIn_def)
  have f: "format_DateFormat 9 7 2025 6 1 3 True = ''9/7/2025 6:01:03 PM''"
    by (simp add: format_DateFormat_def show_num_def pad2_def pad4_def digit_char_simps)
  have h: "hour24 6 True = 18" by (simp add: hour24_def)
  have b: "parseDate ''19/7/2025 6:01:03 PM'' = Err TimeParseError" by (simp add: parse_defs)
  have n: "\<forall>t. \<not> tolerated ''19/7/2025 6:01:03 PM'' t"
    using b by (simp add: parseDate_tolerated [symmetric])
  have tt: "timestamp_text (reading_doc t 5 0) zero_GlucoseMeasurement = t" for t
    by (simp add: timestamp_text_def reading_doc_def dec_struct_def dec_set_def dec_string_def
        dec_bool_def dec_int_def dec_float64_def GlucoseMeasurement_aux_member_def
        in_int64_def in_float64_def zero_GlucoseMeasurement_def)
  have ub: "unmarshal (GlucoseMeasurement_UnmarshalJSON ?bad zero_GlucoseMeasurement) =
      Err TimeParseError"
    by (simp add: GlucoseMeasurement_UnmarshalJSON_def reading_doc_def unmarshal_def
        dec_struct_def dec_set_def dec_string_def dec_bool_def dec_int_def dec_float64_def
        GlucoseMeasurement_aux_member_def in_int64_def in_float64_def b)
  have ug: "unmarshal (GlucoseMeasurement_UnmarshalJSON ?good zero_GlucoseMeasurement) = Ok ?g"
    by (simp add: unmarshal_reading parseDate_examples in_int64_def in_float64_def
        unmarshal_def)
  have t: "Timestamp ?g = Date 2025 9 7 18 1 3 0" by (simp add: reading_val_def)
  note T = parseDate_exact_or_error
    [where month = 9 and day = 7 and year = 2025 and hour = 6 and minute = 1 and sec = 3
       and pm = True]
  note T1 = T [where data = ?bad and g = zero_GlucoseMeasurement and e = TimeParseError
      and s = "''19/7/2025 6:01:03 PM''"]
  note T2 = T [where data = ?good and g = zero_GlucoseMeasurement and g' = ?g
      and s = "''9/7/2025 6:01:03 PM''" and t = "Date 2025 9 7 18 1 3 0"]
  from T2 v f h have p: "parseDate ''9/7/2025 6:01:03 PM'' = Ok (Date 2025 9 7 18 1 3 0)"
    by simp
  from T2 p have tol: "tolerated ''9/7/2025 6:01:03 PM'' (Date 2025 9 7 18 1 3 0)"
    by blast
  from T1 n have b': "parseDate ''19/7/2025 6:01:03 PM'' = Err TimeParseError"
    by blast
  from T2 ug t have vi: "valid_instant (Date 2025 9 7 18 1 3 0)"
    by simp
  from v p tol n b' tt ub ug vi show ?thesis by simp
qed

end
